theory Spec2Isabelle
  imports Main "HOL-Library.Sublist" "HOL-Library.AList" "HOL-Library.Word"
begin

section \<open>The description.ext module of the language server (ext.ts)\<close>

text \<open>
  The development embeds \<^verbatim>\<open>server/src/modules/ext.ts\<close>: the class \<^verbatim>\<open>ExtModule\<close>
  that indexes the functions declared in the \<^verbatim>\<open>CfgFunctions\<close> class of a mission's
  \<^verbatim>\<open>description.ext\<close> and answers completion, hover and definition requests from that
  index.

  Conventions of the embedding.
  \<^item> A JavaScript object used as a dictionary is an association list in the object's
    iteration order (insertion order for the keys that occur here); an assignment
    \<^verbatim>\<open>o[k] = v\<close> is \<^const>\<open>AList.update\<close>, which replaces the value of a key that is
    present, in place, and appends a new key at the end. A read \<^verbatim>\<open>o[k]\<close> whose key the
    module has made itself (the key of a \<^verbatim>\<open>for-in\<close> loop, a fixed variable name, the URI
    of a file, the root file name assigned just before) is \<^const>\<open>map_of\<close>: none of these
    keys is the name of a member of \<^verbatim>\<open>Object.prototype\<close>. The reads whose key is the
    name of a request, \<^verbatim>\<open>this.functions[file][name]\<close> and \<^verbatim>\<open>this.documentation[name]\<close>,
    are \<open>js_get\<close>, which finds the own property and, failing that, the member inherited
    from \<^verbatim>\<open>Object.prototype\<close>.
  \<^item> Names, paths and messages are lists of 8-bit characters; \<^verbatim>\<open>toLowerCase\<close> is modelled
    on the ASCII letters. The values of the variables of a class are strings, as the
    types of the TypeScript source have them. The text of a function's file, on which
    the regular expression of \<^verbatim>\<open>tryToLoadDocs\<close> runs, is a list of UTF-16 code units.
  \<^item> The functions of Node's \<^verbatim>\<open>path\<close> module depend on the platform, so the module
    takes them as a record \<open>platform\<close>; \<open>posix\<close> is the instance for POSIX paths, and
    \<open>win32_isAbsolute\<close> and \<open>win32_join\<close> are the two functions of the Windows
    implementation that the examples use.
  \<^item> The file system, the configuration parser \<^verbatim>\<open>Hpp.parse\<close>, the docstring parser
    \<^verbatim>\<open>Docstring.parse\<close> and \<^verbatim>\<open>Uri.file\<close> are collaborators outside this file of the
    repository; they are parameters, collected in the record \<open>env\<close>.
  \<^item> An exception is a value of type \<open>exn\<close>; a method that can throw returns the state
    it has reached together with the exception, if any.
\<close>

subsection \<open>Strings\<close>

definition upper_chars :: string where
  "upper_chars = ''ABCDEFGHIJKLMNOPQRSTUVWXYZ''"

definition lower_chars :: string where
  "lower_chars = ''abcdefghijklmnopqrstuvwxyz''"

definition char_toLowerCase :: "char \<Rightarrow> char" where
  "char_toLowerCase c =
     (case map_of (zip upper_chars lower_chars) c of Some l \<Rightarrow> l | None \<Rightarrow> c)"

text \<open>\<^verbatim>\<open>s.toLowerCase()\<close>\<close>

definition toLowerCase :: "string \<Rightarrow> string" where
  "toLowerCase s = map char_toLowerCase s"

text \<open>\<^verbatim>\<open>s.startsWith(p)\<close> is \<^term>\<open>prefix p s\<close>; \<^verbatim>\<open>s.slice(n)\<close> is \<^term>\<open>drop n s\<close>;
  \<^verbatim>\<open>s.substr(0, n)\<close> is \<^term>\<open>take n s\<close>.\<close>

text \<open>\<^verbatim>\<open>a || b\<close> on a string that may be undefined: undefined and the empty string are
  falsy.\<close>

definition or_else :: "string option \<Rightarrow> string \<Rightarrow> string" where
  "or_else v d = (case v of None \<Rightarrow> d | Some s \<Rightarrow> if s = [] then d else s)"

subsection \<open>Reading a property of an object literal\<close>






subsection \<open>Node's path module\<close>

record platform =
  path_join :: "string \<Rightarrow> string \<Rightarrow> string"
  path_isAbsolute :: "string \<Rightarrow> bool"
  path_dirname :: "string \<Rightarrow> string"
  path_basename :: "string \<Rightarrow> string"
  path_extname :: "string \<Rightarrow> string"

text \<open>The POSIX implementation. A path is cut at every \<^verbatim>\<open>/\<close>.\<close>

fun split_slash :: "string \<Rightarrow> string list" where
  "split_slash [] = [[]]"
| "split_slash (c # cs) =
     (if c = CHR ''/'' then [] # split_slash cs
      else (case split_slash cs of
              [] \<Rightarrow> [[c]]
            | s # ss \<Rightarrow> (c # s) # ss))"

fun join_slash :: "string list \<Rightarrow> string" where
  "join_slash [] = []"
| "join_slash [s] = s"
| "join_slash (s # t # ss) = s @ CHR ''/'' # join_slash (t # ss)"

text \<open>One step of \<^verbatim>\<open>normalizeString\<close>: empty segments and \<^verbatim>\<open>.\<close> are dropped,
  \<^verbatim>\<open>..\<close> removes the segment before it, unless there is none or it is \<^verbatim>\<open>..\<close> itself;
  then it is kept when the path is relative and dropped when it is absolute.\<close>

definition normalizeSegment :: "bool \<Rightarrow> string list \<Rightarrow> string \<Rightarrow> string list" where
  "normalizeSegment allowAboveRoot res seg =
     (if seg = [] \<or> seg = ''.'' then res
      else if seg = ''..'' then
        (if res \<noteq> [] \<and> last res \<noteq> ''..'' then butlast res
         else if allowAboveRoot then res @ [''..'']
         else res)
      else res @ [seg])"

definition normalizeString :: "string \<Rightarrow> bool \<Rightarrow> string" where
  "normalizeString p allowAboveRoot =
     join_slash (foldl (normalizeSegment allowAboveRoot) [] (split_slash p))"

definition posix_isAbsolute :: "string \<Rightarrow> bool" where
  "posix_isAbsolute p = (p \<noteq> [] \<and> hd p = CHR ''/'')"

definition posix_normalize :: "string \<Rightarrow> string" where
  "posix_normalize p =
     (if p = [] then ''.''
      else
        let isAbsolute = (hd p = CHR ''/'');
            trailingSeparator = (last p = CHR ''/'');
            q = normalizeString p (\<not> isAbsolute)
        in if q = [] then
             (if isAbsolute then ''/'' else if trailingSeparator then ''./'' else ''.'')
           else
             (let q' = (if trailingSeparator then q @ ''/'' else q)
              in if isAbsolute then CHR ''/'' # q' else q'))"

text \<open>\<^verbatim>\<open>path.join(a, b)\<close>: the non-empty arguments, joined by \<^verbatim>\<open>/\<close>, normalised.\<close>

definition posix_join :: "string \<Rightarrow> string \<Rightarrow> string" where
  "posix_join a b =
     (if a = [] \<and> b = [] then ''.''
      else posix_normalize (if a = [] then b else if b = [] then a else a @ CHR ''/'' # b))"

definition posix_dirname :: "string \<Rightarrow> string" where
  "posix_dirname p =
     (if p = [] then ''.''
      else
        let hasRoot = (hd p = CHR ''/'');
            r = dropWhile (\<lambda>c. c = CHR ''/'') (rev (tl p));
            r' = dropWhile (\<lambda>c. c \<noteq> CHR ''/'') r
        in if r' = [] then (if hasRoot then ''/'' else ''.'')
           else if hasRoot \<and> tl r' = [] then ''//''
           else hd p # rev (tl r'))"

definition posix_basename :: "string \<Rightarrow> string" where
  "posix_basename p =
     rev (takeWhile (\<lambda>c. c \<noteq> CHR ''/'') (dropWhile (\<lambda>c. c = CHR ''/'') (rev p)))"

text \<open>\<^verbatim>\<open>path.extname\<close>: from the last dot of the base name to its end; empty when the
  base name has no dot, starts with its only dot, or is \<^verbatim>\<open>..\<close>.\<close>

definition posix_extname :: "string \<Rightarrow> string" where
  "posix_extname p =
     (let b = posix_basename p;
          e = rev (takeWhile (\<lambda>c. c \<noteq> CHR ''.'') (rev b));
          pre = take (length b - length e - 1) b
      in if CHR ''.'' \<notin> set b \<or> pre = [] \<or> b = ''..'' then [] else CHR ''.'' # e)"

definition posix :: platform where
  "posix = \<lparr> path_join = posix_join, path_isAbsolute = posix_isAbsolute,
             path_dirname = posix_dirname, path_basename = posix_basename,
             path_extname = posix_extname \<rparr>"

text \<open>\<^verbatim>\<open>path.win32.isAbsolute\<close>: a leading separator, or a drive letter, a colon and a
  separator.\<close>

definition isPathSeparator :: "char \<Rightarrow> bool" where
  "isPathSeparator c = (c = CHR ''/'' \<or> c = CHR 0x5C)"

definition isWindowsDeviceRoot :: "char \<Rightarrow> bool" where
  "isWindowsDeviceRoot c = (c \<in> set upper_chars \<or> c \<in> set lower_chars)"

fun win32_isAbsolute :: "string \<Rightarrow> bool" where
  "win32_isAbsolute [] = False"
| "win32_isAbsolute (c # cs) =
     (isPathSeparator c \<or>
      (case cs of
         d # e # rest \<Rightarrow> isWindowsDeviceRoot c \<and> d = CHR '':'' \<and> isPathSeparator e
       | _ \<Rightarrow> False))"

text \<open>\<^verbatim>\<open>path.win32.join\<close> and \<^verbatim>\<open>path.win32.normalize\<close>. A path is cut at every separator,
  slash or backslash, and the segments that \<^verbatim>\<open>normalizeString\<close> keeps are put together
  with backslashes.\<close>

fun split_sep :: "string \<Rightarrow> string list" where
  "split_sep [] = [[]]"
| "split_sep (c # cs) =
     (if isPathSeparator c then [] # split_sep cs
      else (case split_sep cs of
              [] \<Rightarrow> [[c]]
            | s # ss \<Rightarrow> (c # s) # ss))"

fun join_backslash :: "string list \<Rightarrow> string" where
  "join_backslash [] = []"
| "join_backslash [s] = s"
| "join_backslash (s # t # ss) = s @ CHR 0x5C # join_backslash (t # ss)"

definition win32_normalizeString :: "string \<Rightarrow> bool \<Rightarrow> string" where
  "win32_normalizeString p allowAboveRoot =
     join_backslash (foldl (normalizeSegment allowAboveRoot) [] (split_sep p))"

text \<open>The end of \<^verbatim>\<open>normalize\<close>, once the root is known: \<open>device\<close> is the drive or the UNC
  root, if any, and \<open>rest\<close> is the path after the root.\<close>

definition win32_tail :: "string \<Rightarrow> string option \<Rightarrow> string \<Rightarrow> bool \<Rightarrow> string" where
  "win32_tail p device rest isAbsolute =
     (let t = (if rest = [] then [] else win32_normalizeString rest (\<not> isAbsolute));
          t1 = (if t = [] \<and> \<not> isAbsolute then ''.'' else t);
          t2 = (if t1 \<noteq> [] \<and> isPathSeparator (last p) then t1 @ [CHR 0x5C] else t1)
      in case device of
           None \<Rightarrow> if isAbsolute then CHR 0x5C # t2 else t2
         | Some d \<Rightarrow> if isAbsolute then d @ CHR 0x5C # t2 else d @ t2)"

text \<open>The root is a UNC root (two separators, a server name, separators, a share name), a
  single separator, a drive letter with a colon, or nothing. A UNC root with nothing
  after it is returned with a closing backslash.\<close>

definition win32_normalize :: "string \<Rightarrow> string" where
  "win32_normalize p =
     (case p of
        [] \<Rightarrow> ''.''
      | [c] \<Rightarrow> if c = CHR ''/'' then [CHR 0x5C] else [c]
      | c # d # rest \<Rightarrow>
          if isPathSeparator c then
            (if isPathSeparator d then
               (let firstPart = takeWhile (\<lambda>x. \<not> isPathSeparator x) rest;
                    after1 = dropWhile (\<lambda>x. \<not> isPathSeparator x) rest;
                    after2 = dropWhile isPathSeparator after1;
                    secondPart = takeWhile (\<lambda>x. \<not> isPathSeparator x) after2;
                    after3 = dropWhile (\<lambda>x. \<not> isPathSeparator x) after2
                in if firstPart \<noteq> [] \<and> after1 \<noteq> [] \<and> after2 \<noteq> [] then
                     (if after3 = [] then
                        [CHR 0x5C, CHR 0x5C] @ firstPart @ [CHR 0x5C] @ secondPart @ [CHR 0x5C]
                      else
                        win32_tail p
                          (Some ([CHR 0x5C, CHR 0x5C] @ firstPart @ [CHR 0x5C] @ secondPart))
                          after3 True)
                   else win32_tail p None p True)
             else win32_tail p None (d # rest) True)
          else if isWindowsDeviceRoot c \<and> d = CHR '':'' then
            (case rest of
               [] \<Rightarrow> win32_tail p (Some [c, d]) [] False
             | e # rest' \<Rightarrow>
                 if isPathSeparator e then win32_tail p (Some [c, d]) rest' True
                 else win32_tail p (Some [c, d]) rest False)
          else win32_tail p None p False)"

text \<open>\<^verbatim>\<open>path.win32.join(a, b)\<close>: the non-empty arguments, joined by a backslash; leading
  separators are reduced to one, unless the first non-empty argument starts with exactly
  two of them (a UNC path is meant); then the path is normalised.\<close>

definition win32_join :: "string \<Rightarrow> string \<Rightarrow> string" where
  "win32_join a b =
     (if a = [] \<and> b = [] then ''.''
      else
        let firstPart = (if a = [] then b else a);
            joined = (if a = [] then b else if b = [] then a else a @ CHR 0x5C # b);
            uncMeant = (case firstPart of
                          c # d # e # rest \<Rightarrow>
                            isPathSeparator c \<and> isPathSeparator d \<and> \<not> isPathSeparator e
                        | _ \<Rightarrow> False);
            slashCount = length (takeWhile isPathSeparator joined)
        in win32_normalize
             (if \<not> uncMeant \<and> slashCount \<ge> 2 then CHR 0x5C # drop slashCount joined
              else joined))"

subsection \<open>The configuration tree produced by the Hpp parser\<close>

type_synonym Range = "(nat \<times> nat) \<times> (nat \<times> nat)"

record FileLocation =
  loc_filename :: "string option"
  loc_range :: Range

text \<open>A class has its name as written, a body and the place of its declaration. A body
  maps lower-cased class names to classes and lower-cased variable names to values;
  the module reads the values it uses as strings.\<close>

datatype Class = Class (class_name: string) (body: ClassBody) (fileLocation: FileLocation)
  and ClassBody =
    ClassBody (classes: "(string \<times> Class) list") (variables: "(string \<times> string) list")

subsection \<open>Diagnostics, functions, settings and the collaborators\<close>

datatype DiagnosticSeverity = Error | Warning | Information | Hint

record Diagnostic =
  severity :: DiagnosticSeverity
  diag_range :: Range
  message :: string
  source :: string

text \<open>The interface \<^verbatim>\<open>Function\<close>; \<open>'i\<close> is \<^verbatim>\<open>Docstring.Info\<close>, and \<^verbatim>\<open>info\<close> is
  optional.\<close>

record 'i Function =
  name :: string
  filename :: string
  info :: "'i option"

record Documentation =
  doc_name :: string
  doc_type :: string
  description :: string
  link :: string

record Settings =
  includePrefixes :: "(string \<times> string) list option"
  descriptionFiles :: "string list"
  discoverDescriptionFiles :: bool
  exclude :: "string list"

datatype exn = ParseError "string option" Range string | Exception string

text \<open>A JavaScript string is a sequence of UTF-16 code units, 16 bits each. \<open>utf16\<close> gives
  the code units of a text of 8-bit characters (the code points up to U+00FF).\<close>

type_synonym code_units = "16 word list"

definition utf16 :: "string \<Rightarrow> code_units" where
  "utf16 s = map of_char s"

text \<open>A file holds the text that \<^verbatim>\<open>readFileSync(f).toString()\<close> decodes from its bytes.\<close>

datatype fs_entry = File code_units | Directory

type_synonym filesystem = "string \<Rightarrow> fs_entry option"

definition existsSync :: "filesystem \<Rightarrow> string \<Rightarrow> bool" where
  "existsSync files p = (files p \<noteq> None)"

definition readFileSync :: "filesystem \<Rightarrow> string \<Rightarrow> exn + code_units" where
  "readFileSync files p =
     (case files p of
        None \<Rightarrow> Inl (Exception ''ENOENT'')
      | Some Directory \<Rightarrow> Inl (Exception ''EISDIR'')
      | Some (File contents) \<Rightarrow> Inr contents)"

text \<open>What the module is given: the platform's path functions, the settings, the file
  system, \<^verbatim>\<open>Uri.file(f).toString()\<close> for a file name and for \<^verbatim>\<open>undefined\<close> (a string, or the
  exception that \<^verbatim>\<open>Uri.file\<close> throws), \<^verbatim>\<open>Hpp.parse\<close> (the file names it reports through
  \<^verbatim>\<open>Hpp.onFilename\<close> while it parses, and the tree or the exception it ends with),
  \<^verbatim>\<open>Docstring.parse\<close>, \<^verbatim>\<open>glob\<close>, and the three pieces of text that \<^verbatim>\<open>onHover\<close> makes from the
  fields of a \<^verbatim>\<open>Docstring.Info\<close>: the lines before the code block (the short description
  and the list of parameters), the return type followed by \<^verbatim>\<open>=\<close>, with a space before it
  (empty when \<^verbatim>\<open>info.returns.type\<close> is empty), and the arguments.\<close>

record 'i env =
  os :: platform
  getSettings :: Settings
  disk :: filesystem
  uri_file :: "string \<Rightarrow> string"
  uri_file_undefined :: "exn + string"
  hpp_parse :: "string \<Rightarrow> string list \<times> (exn + ClassBody)"
  docstring_parse :: "code_units \<Rightarrow> exn + 'i"
  glob :: "string \<Rightarrow> string list \<Rightarrow> string \<Rightarrow> string list"
  info_head :: "'i \<Rightarrow> string"
  info_returns :: "'i \<Rightarrow> string"
  info_args :: "'i \<Rightarrow> string"

text \<open>The fields of \<^verbatim>\<open>ExtModule\<close>, and what it has done to the outside: the calls of
  \<^verbatim>\<open>sendDiagnostics\<close> (oldest first), the errors written with \<^verbatim>\<open>console.error\<close>, and the
  files whose \<^verbatim>\<open>fs.readFile\<close> callback is scheduled and has not run yet.\<close>

record 'i ExtModule =
  this_functions :: "(string \<times> (string \<times> 'i Function) list) list"
  documentation :: "(string \<times> Documentation) list"
  files :: "string list"
  sent :: "(string \<times> Diagnostic list) list"
  console :: "exn list"
  pendingReads :: "string list"

definition sendDiagnostics :: "string \<Rightarrow> Diagnostic list \<Rightarrow> 'i ExtModule \<Rightarrow> 'i ExtModule" where
  "sendDiagnostics uri ds m = m\<lparr>sent := sent m @ [(uri, ds)]\<rparr>"

definition initial :: "'i ExtModule" where
  "initial = \<lparr> this_functions = [], documentation = [], files = [], sent = [], console = [],
               pendingReads = [] \<rparr>"

subsection \<open>processCfgFunctions\<close>

text \<open>The local variables of \<^verbatim>\<open>processCfgFunctions\<close> that its loops update. \<open>fns\<close> is
  \<^verbatim>\<open>functions\<close>, the object that is also stored as \<^verbatim>\<open>this.functions[rootFilename]\<close>.\<close>

record 'i scan =
  fns :: "(string \<times> 'i Function) list"
  diagnostics :: "(string \<times> Diagnostic list) list"
  functionsCount :: nat

definition fullFunctionName :: "string \<Rightarrow> Class \<Rightarrow> string" where
  "fullFunctionName categoryTag functionClass =
     categoryTag @ ''_fnc_'' @ class_name functionClass"

text \<open>Lines 377 to 392: the file name of a function before the include prefixes and the
  root are applied.\<close>

definition relativeFilename :: "platform \<Rightarrow> string \<Rightarrow> Class \<Rightarrow> string" where
  "relativeFilename pl categoryPath functionClass =
     (let functionName = class_name functionClass;
          ext = or_else (map_of (variables (body functionClass)) ''ext'') ''.sqf'';
          defaultFilename = path_join pl categoryPath (''fn_'' @ functionName @ ext);
          filenameOverride = map_of (variables (body functionClass)) ''file''
      in or_else filenameOverride defaultFilename)"

text \<open>Lines 395 to 405: the loop over the include prefixes, left at the first prefix the
  file name starts with. The result is the new file name when \<^verbatim>\<open>foundPrefix\<close> is set.\<close>

fun applyPrefixes :: "platform \<Rightarrow> string \<Rightarrow> (string \<times> string) list \<Rightarrow> string \<Rightarrow> string option" where
  "applyPrefixes pl root [] fname = None"
| "applyPrefixes pl root ((pre, mapped) # rest) fname =
     (if prefix pre fname then
        Some (if path_isAbsolute pl mapped then mapped @ drop (length pre) fname
              else path_join pl root (mapped @ drop (length pre) fname))
      else applyPrefixes pl root rest fname)"

definition resolveFilename :: "platform \<Rightarrow> Settings \<Rightarrow> string \<Rightarrow> string \<Rightarrow> string" where
  "resolveFilename pl settings root fname =
     (case (case includePrefixes settings of
              None \<Rightarrow> None
            | Some includes \<Rightarrow> applyPrefixes pl root includes fname) of
        Some found \<Rightarrow> found
      | None \<Rightarrow> path_join pl root fname)"

definition push_diagnostic ::
    "string \<Rightarrow> Diagnostic \<Rightarrow> (string \<times> Diagnostic list) list \<Rightarrow> (string \<times> Diagnostic list) list" where
  "push_diagnostic uri d ds =
     AList.update uri ((case map_of ds uri of None \<Rightarrow> [] | Some l \<Rightarrow> l) @ [d]) ds"

definition missing_diagnostic :: "Class \<Rightarrow> string \<Rightarrow> string \<Rightarrow> Diagnostic" where
  "missing_diagnostic functionClass fname fullName =
     \<lparr> severity = Error,
       diag_range = loc_range (fileLocation functionClass),
       message = ''Failed to find '' @ fname @ '' for function '' @ fullName @ ''.'',
       source = ''sqflint'' \<rparr>"

text \<open>The body of the innermost loop, lines 376 to 437.\<close>

definition processFunction ::
    "'i env \<Rightarrow> string \<Rightarrow> string \<Rightarrow> string \<Rightarrow> string \<Rightarrow> Class \<Rightarrow> 'i scan \<Rightarrow> 'i scan" where
  "processFunction env rootFilename root categoryPath categoryTag functionClass st =
     (let fullName = fullFunctionName categoryTag functionClass;
          fname = resolveFilename (os env) (getSettings env) root
                    (relativeFilename (os env) categoryPath functionClass);
          st1 = st\<lparr> functionsCount := functionsCount st + 1,
                    fns := AList.update (toLowerCase fullName)
                             \<lparr> name = fullName, filename = fname, info = None \<rparr> (fns st) \<rparr>
      in if \<not> existsSync (disk env) fname then
           (let declared = or_else (loc_filename (fileLocation functionClass)) rootFilename;
                uri = uri_file env declared
            in st1\<lparr> diagnostics :=
                      push_diagnostic uri (missing_diagnostic functionClass fname fullName)
                        (diagnostics st1) \<rparr>)
         else st1)"

text \<open>The body of the loop over the categories of a tag, lines 358 to 438.\<close>

definition categoryPath_of :: "platform \<Rightarrow> Class \<Rightarrow> string" where
  "categoryPath_of pl categoryClass =
     or_else (map_of (variables (body categoryClass)) ''file'')
       (path_join pl ''functions'' (class_name categoryClass))"

definition categoryTag_of :: "string \<Rightarrow> Class \<Rightarrow> string" where
  "categoryTag_of tag categoryClass =
     or_else (map_of (variables (body categoryClass)) ''tag'') tag"

definition processCategory ::
    "'i env \<Rightarrow> string \<Rightarrow> string \<Rightarrow> string \<Rightarrow> Class \<Rightarrow> 'i scan \<Rightarrow> 'i scan" where
  "processCategory env rootFilename root tag categoryClass st =
     (let categoryPath = categoryPath_of (os env) categoryClass;
          categoryTag = categoryTag_of tag categoryClass
      in fold (\<lambda>(functionName, functionClass).
                 processFunction env rootFilename root categoryPath categoryTag functionClass)
           (classes (body categoryClass)) st)"

text \<open>The body of the outermost loop, lines 352 to 439.\<close>

definition tag_of :: "Class \<Rightarrow> string" where
  "tag_of tagClass = or_else (map_of (variables (body tagClass)) ''tag'') (class_name tagClass)"

definition processTag :: "'i env \<Rightarrow> string \<Rightarrow> string \<Rightarrow> Class \<Rightarrow> 'i scan \<Rightarrow> 'i scan" where
  "processTag env rootFilename root tagClass st =
     fold (\<lambda>(category, categoryClass).
             processCategory env rootFilename root (tag_of tagClass) categoryClass)
       (classes (body tagClass)) st"

definition scanCfgFunctions :: "'i env \<Rightarrow> Class \<Rightarrow> string \<Rightarrow> 'i scan" where
  "scanCfgFunctions env cfgFunctions rootFilename =
     fold (\<lambda>(tag, tagClass).
             processTag env rootFilename (path_dirname (os env) rootFilename) tagClass)
       (classes (body cfgFunctions))
       \<lparr> fns = [], diagnostics = [], functionsCount = 0 \<rparr>"

subsection \<open>tryToLoadDocs\<close>

text \<open>The regular expression \<^verbatim>\<open>/\s*\/\*((?:.|\n|\r)*)\*\//\<close>, on code units. It has no
  anchor, so \<^verbatim>\<open>exec\<close> tries the start positions from left to right. At a position,
  \<^verbatim>\<open>\s*\<close> takes the white space (giving some back cannot help: the next code unit must be
  \<^verbatim>\<open>/\<close>), then \<^verbatim>\<open>/*\<close> must follow, and the group takes as much as it can and gives back
  until \<^verbatim>\<open>*/\<close> follows. The dot matches every code unit but the line terminators LF, CR,
  U+2028 and U+2029, and the other two alternatives of the group match LF and CR: the
  group cannot go past U+2028 or U+2029. The result is the group, \<^verbatim>\<open>match[1]\<close>.\<close>

definition is_space :: "16 word \<Rightarrow> bool" where
  "is_space c =
     (c \<in> set [0x09, 0x0A, 0x0B, 0x0C, 0x0D, 0x20, 0xA0, 0x1680, 0x2028, 0x2029, 0x202F,
               0x205F, 0x3000, 0xFEFF]
      \<or> (0x2000 \<le> c \<and> c \<le> 0x200A))"

definition group_char :: "16 word \<Rightarrow> bool" where
  "group_char c = (c \<noteq> 0x2028 \<and> c \<noteq> 0x2029)"

fun greedy_group :: "code_units \<Rightarrow> code_units option" where
  "greedy_group [] = None"
| "greedy_group (c # cs) =
     (case (if group_char c then greedy_group cs else None) of
        Some g \<Rightarrow> Some (c # g)
      | None \<Rightarrow> if c = 0x2A \<and> prefix [0x2F] cs then Some [] else None)"

definition match_here :: "code_units \<Rightarrow> code_units option" where
  "match_here s =
     (case dropWhile is_space s of
        a # b # cs \<Rightarrow> if a = 0x2F \<and> b = 0x2A then greedy_group cs else None
      | _ \<Rightarrow> None)"

fun commentRegex_exec :: "code_units \<Rightarrow> code_units option" where
  "commentRegex_exec [] = match_here []"
| "commentRegex_exec (c # cs) =
     (case match_here (c # cs) of
        Some g \<Rightarrow> Some g
      | None \<Rightarrow> commentRegex_exec cs)"

text \<open>The body of the loop of \<^verbatim>\<open>tryToLoadDocs\<close>: it throws what \<^verbatim>\<open>readFileSync\<close> or
  \<^verbatim>\<open>Docstring.parse\<close> throws.\<close>

definition loadDoc :: "'i env \<Rightarrow> 'i Function \<Rightarrow> exn + 'i Function" where
  "loadDoc env fnc =
     (if existsSync (disk env) (filename fnc) then
        (case readFileSync (disk env) (filename fnc) of
           Inl e \<Rightarrow> Inl e
         | Inr contents \<Rightarrow>
             (case commentRegex_exec contents of
                None \<Rightarrow> Inr fnc
              | Some interior \<Rightarrow>
                  (case docstring_parse env interior of
                     Inl e \<Rightarrow> Inl e
                   | Inr i \<Rightarrow> Inr (fnc\<lparr>info := Some i\<rparr>))))
      else Inr fnc)"

text \<open>The loop: the functions before the one that throws keep what they were given, the
  others are left as they are.\<close>

fun loadDocs :: "'i env \<Rightarrow> (string \<times> 'i Function) list \<Rightarrow> (string \<times> 'i Function) list \<times> exn option" where
  "loadDocs env [] = ([], None)"
| "loadDocs env ((f, fnc) # rest) =
     (case loadDoc env fnc of
        Inl e \<Rightarrow> ((f, fnc) # rest, Some e)
      | Inr fnc' \<Rightarrow> (case loadDocs env rest of (rest', x) \<Rightarrow> ((f, fnc') # rest', x)))"

definition tryToLoadDocs :: "'i env \<Rightarrow> string \<Rightarrow> 'i ExtModule \<Rightarrow> 'i ExtModule \<times> exn option" where
  "tryToLoadDocs env descriptionFile m =
     (case map_of (this_functions m) descriptionFile of
        None \<Rightarrow> (m, None)
      | Some table \<Rightarrow>
          (case loadDocs env table of
             (table', x) \<Rightarrow> (m\<lparr>this_functions := AList.update descriptionFile table' (this_functions m)\<rparr>, x)))"

text \<open>\<^verbatim>\<open>processCfgFunctions\<close>: the table of the root is replaced by the one the loops
  build, the diagnostics are sent URI by URI, and the documentation is loaded.\<close>

definition processCfgFunctions ::
    "'i env \<Rightarrow> Class \<Rightarrow> string \<Rightarrow> 'i ExtModule \<Rightarrow> 'i ExtModule \<times> exn option" where
  "processCfgFunctions env cfgFunctions rootFilename m =
     (let st = scanCfgFunctions env cfgFunctions rootFilename;
          m1 = m\<lparr>this_functions := AList.update rootFilename (fns st) (this_functions m)\<rparr>;
          m2 = fold (\<lambda>(uri, ds). sendDiagnostics uri ds) (diagnostics st) m1
      in tryToLoadDocs env rootFilename m2)"

definition process :: "'i env \<Rightarrow> ClassBody \<Rightarrow> string \<Rightarrow> 'i ExtModule \<Rightarrow> 'i ExtModule \<times> exn option" where
  "process env context rootFilename m =
     (case map_of (classes context) ''cfgfunctions'' of
        None \<Rightarrow> (m, None)
      | Some cfgFunctions \<Rightarrow> processCfgFunctions env cfgFunctions rootFilename m)"

subsection \<open>parseFile, parse and indexWorkspace\<close>

text \<open>The \<^verbatim>\<open>catch\<close> block of \<^verbatim>\<open>parseFile\<close>: a parse error that names its file becomes a
  diagnostic of that file, any other exception goes to the console.\<close>

definition catch_error :: "'i env \<Rightarrow> exn \<Rightarrow> 'i ExtModule \<Rightarrow> 'i ExtModule" where
  "catch_error env error m =
     (case error of
        ParseError (Some errorFile) r msg \<Rightarrow>
          if errorFile \<noteq> [] then
            sendDiagnostics (uri_file env errorFile)
              [\<lparr> severity = Error, diag_range = r, message = msg, source = ''sqflint'' \<rparr>] m
          else m\<lparr>console := console m @ [error]\<rparr>
      | _ \<Rightarrow> m\<lparr>console := console m @ [error]\<rparr>)"

text \<open>The callback that \<^verbatim>\<open>parseFile\<close> passes to \<^verbatim>\<open>fs.readFile\<close>, lines 295 to 325. While
  \<^verbatim>\<open>Hpp.parse\<close> runs, the hook \<^verbatim>\<open>Hpp.onFilename\<close> set by \<^verbatim>\<open>onInitialize\<close> sends an empty
  list of diagnostics for every file the parser reports.\<close>

definition parseFile_callback :: "'i env \<Rightarrow> string \<Rightarrow> 'i ExtModule \<Rightarrow> 'i ExtModule" where
  "parseFile_callback env rootFilename m =
     (case hpp_parse env rootFilename of
        (touched, result) \<Rightarrow>
          (let m0 = fold (\<lambda>f. sendDiagnostics (uri_file env f) []) touched m
           in case result of
                Inl error \<Rightarrow> catch_error env error m0
              | Inr tree \<Rightarrow>
                  (case process env tree rootFilename m0 of
                     (m1, Some error) \<Rightarrow> catch_error env error m1
                   | (m1, None) \<Rightarrow> sendDiagnostics (uri_file env rootFilename) [] m1)))"

text \<open>\<^verbatim>\<open>parseFile\<close> itself only calls \<^verbatim>\<open>fs.readFile\<close>, which is asynchronous: Node runs the
  callback in a later turn of the event loop, never before the caller has returned. The
  call is recorded in \<open>pendingReads\<close>.\<close>

definition parseFile :: "string \<Rightarrow> 'i ExtModule \<Rightarrow> 'i ExtModule" where
  "parseFile rootFilename m = m\<lparr>pendingReads := pendingReads m @ [rootFilename]\<rparr>"

definition parse :: "'i env \<Rightarrow> string \<Rightarrow> 'i ExtModule \<Rightarrow> 'i ExtModule" where
  "parse env file m = (if existsSync (disk env) file then parseFile file m else m)"

text \<open>\<^verbatim>\<open>indexWorkspace\<close>, up to the call of \<^verbatim>\<open>resolve()\<close> that settles the promise it
  returns: the result is the state of the module at that call.\<close>

definition indexWorkspace :: "'i env \<Rightarrow> string \<Rightarrow> 'i ExtModule \<Rightarrow> 'i ExtModule" where
  "indexWorkspace env root m =
     (let settings = getSettings env;
          listed = map (\<lambda>file. if path_isAbsolute (os env) file then file
                                else path_join (os env) root file)
                     (descriptionFiles settings)
      in if discoverDescriptionFiles settings then
           (let discovered = glob env ''**/description.ext'' (exclude settings) root;
                all_files = listed @ map (\<lambda>item. path_join (os env) root item) discovered
            in fold (parse env) all_files (m\<lparr>files := all_files\<rparr>))
         else
           (let descPath = path_join (os env) root ''description.ext'';
                all_files = (if existsSync (disk env) descPath then listed @ [descPath]
                             else listed)
            in fold (parse env) all_files (m\<lparr>files := all_files\<rparr>)))"

text \<open>The event loop afterwards: the scheduled callbacks run one by one (here in the order
  of the calls).\<close>

definition runPendingReads :: "'i env \<Rightarrow> 'i ExtModule \<Rightarrow> 'i ExtModule" where
  "runPendingReads env m =
     fold (parseFile_callback env) (pendingReads m) (m\<lparr>pendingReads := []\<rparr>)"

text \<open>\<^verbatim>\<open>loadDocumentation\<close>, given the \<^verbatim>\<open>properties\<close> of the bundled JSON file. (The
  properties are taken not to include one named \<^verbatim>\<open>__proto__\<close>, for which the assignment
  would not make an own property.)\<close>

definition loadDocumentation :: "Documentation list \<Rightarrow> 'i ExtModule \<Rightarrow> 'i ExtModule" where
  "loadDocumentation items m =
     fold (\<lambda>item m'. m'\<lparr>documentation :=
                          AList.update (toLowerCase (doc_name item)) item (documentation m')\<rparr>)
       items m"

subsection \<open>Completion, hover and definition\<close>

datatype CompletionItemKind = KindFunction | KindProperty

record CompletionItem =
  label :: string
  data :: string
  filterText :: string
  insertText :: string
  kind :: CompletionItemKind
  item_documentation :: "string option"

text \<open>\<^verbatim>\<open>ident.length >= name.length && ident.substr(0, name.length) == name\<close>\<close>

definition starts_with :: "string \<Rightarrow> string \<Rightarrow> bool" where
  "starts_with ident word = (length ident \<ge> length word \<and> take (length word) ident = word)"

definition functionItem :: "string \<Rightarrow> 'i Function \<Rightarrow> CompletionItem" where
  "functionItem ident fnc =
     \<lparr> label = name fnc, data = ident, filterText = name fnc, insertText = name fnc,
       kind = KindFunction, item_documentation = None \<rparr>"

definition replacement :: "Documentation \<Rightarrow> string" where
  "replacement v =
     (let t = toLowerCase (doc_type v)
      in if t = ''string'' then doc_name v @ '' = '' @ [CHR 0x22]
         else if t = ''array'' \<or> t = ''array of strings'' then doc_name v @ ''[] = {''
         else if t = ''class'' then ''class '' @ doc_name v @ [CHR 0x0A] @ ''{'' @ [CHR 0x0A]
         else doc_name v @ '' = '')"

definition propertyItem :: "string \<Rightarrow> Documentation \<Rightarrow> CompletionItem" where
  "propertyItem ident v =
     \<lparr> label = doc_name v, data = ident, filterText = replacement v,
       insertText = replacement v, kind = KindProperty,
       item_documentation = Some (description v) \<rparr>"

definition onCompletion :: "'i env \<Rightarrow> 'i ExtModule \<Rightarrow> string \<Rightarrow> string \<Rightarrow> CompletionItem list" where
  "onCompletion env m uri word =
     (if toLowerCase (path_extname (os env) uri) = ''.sqf'' then
        concat (map (\<lambda>(file, table).
                       concat (map (\<lambda>(ident, fnc).
                                      if starts_with ident word then [functionItem ident fnc]
                                      else [])
                                 table))
                  (this_functions m))
      else [])
     @
     (if toLowerCase (path_basename (os env) uri) = ''description.ext'' then
        concat (map (\<lambda>(ident, v).
                       if starts_with ident word then [propertyItem ident v] else [])
                  (documentation m))
      else [])"


text \<open>The markdown of a hover, from \<^verbatim>\<open>item.info\<close> and the text that \<^verbatim>\<open>item.name\<close> gives in
  the template literal.\<close>

definition crlf :: string where
  "crlf = [CHR 0x0D, CHR 0x0A]"







subsection \<open>The declared functions\<close>

text \<open>A class name that is one plain segment of a path: not empty, without a slash, and
  neither \<^verbatim>\<open>.\<close> nor \<^verbatim>\<open>..\<close>. The identifiers of the configuration grammar are such.\<close>

definition plain_segment :: "string \<Rightarrow> bool" where
  "plain_segment s = (s \<noteq> [] \<and> CHR ''/'' \<notin> set s \<and> s \<noteq> ''.'' \<and> s \<noteq> ''..'')"

text \<open>The same for a Windows path: a backslash is a separator too.\<close>

definition plain_win32_segment :: "string \<Rightarrow> bool" where
  "plain_win32_segment s = (plain_segment s \<and> CHR 0x5C \<notin> set s)"

text \<open>The function classes of a registry, each with its tag class and its category class,
  in the order in which the three loops reach them.\<close>

definition declarations :: "Class \<Rightarrow> (Class \<times> Class \<times> Class) list" where
  "declarations cfgFunctions =
     concat (map (\<lambda>(tag, tagClass).
                    concat (map (\<lambda>(category, categoryClass).
                                   map (\<lambda>(functionName, functionClass).
                                          (tagClass, categoryClass, functionClass))
                                     (classes (body categoryClass)))
                              (classes (body tagClass))))
               (classes (body cfgFunctions)))"

text \<open>What the loop body computes for a declaration: the qualified name, the resolved
  file name, the record stored, whether the file is missing, and the URI and the
  diagnostic reported then.\<close>

definition decl_name :: "Class \<times> Class \<times> Class \<Rightarrow> string" where
  "decl_name d =
     (case d of (tagClass, categoryClass, functionClass) \<Rightarrow>
        fullFunctionName (categoryTag_of (tag_of tagClass) categoryClass) functionClass)"

definition decl_filename :: "'i env \<Rightarrow> string \<Rightarrow> Class \<times> Class \<times> Class \<Rightarrow> string" where
  "decl_filename env rootFilename d =
     (case d of (tagClass, categoryClass, functionClass) \<Rightarrow>
        resolveFilename (os env) (getSettings env) (path_dirname (os env) rootFilename)
          (relativeFilename (os env) (categoryPath_of (os env) categoryClass) functionClass))"

definition decl_record :: "'i env \<Rightarrow> string \<Rightarrow> Class \<times> Class \<times> Class \<Rightarrow> 'i Function" where
  "decl_record env rootFilename d =
     \<lparr> name = decl_name d, filename = decl_filename env rootFilename d, info = None \<rparr>"




text \<open>The body of the innermost loop at a declaration.\<close>

definition decl_step :: "'i env \<Rightarrow> string \<Rightarrow> Class \<times> Class \<times> Class \<Rightarrow> 'i scan \<Rightarrow> 'i scan" where
  "decl_step env rootFilename d =
     (case d of (tagClass, categoryClass, functionClass) \<Rightarrow>
        processFunction env rootFilename (path_dirname (os env) rootFilename)
          (categoryPath_of (os env) categoryClass)
          (categoryTag_of (tag_of tagClass) categoryClass) functionClass)"

subsection \<open>The invariant of the function table\<close>

text \<open>Every key of a table is the lower-cased \<^verbatim>\<open>name\<close> of the record stored under it.\<close>

definition table_keys_lower :: "(string \<times> 'i Function) list \<Rightarrow> bool" where
  "table_keys_lower table = list_all (\<lambda>(key, fnc). key = toLowerCase (name fnc)) table"

definition keys_lower :: "'i ExtModule \<Rightarrow> bool" where
  "keys_lower m = list_all (\<lambda>(file, table). table_keys_lower table) (this_functions m)"

text \<open>The same for the documentation table, as \<^verbatim>\<open>loadDocumentation\<close> fills it.\<close>

definition documentation_keys_lower :: "'i ExtModule \<Rightarrow> bool" where
  "documentation_keys_lower m =
     list_all (\<lambda>(key, item). key = toLowerCase (doc_name item)) (documentation m)"

subsection \<open>The leading block comment of the specification\<close>

text \<open>The specification's reading of the extraction, for comparison with
  \<open>commentRegex_exec\<close>: the text, after white space, starts with a block comment, and the
  result is the interior of that comment, up to its closing marker.\<close>

fun until_close :: "code_units \<Rightarrow> code_units option" where
  "until_close [] = None"
| "until_close (c # cs) =
     (if c = 0x2A \<and> prefix [0x2F] cs then Some []
      else map_option ((#) c) (until_close cs))"

definition spec_leading_block_comment :: "code_units \<Rightarrow> code_units option" where
  "spec_leading_block_comment contents =
     (case dropWhile is_space contents of
        a # b # cs \<Rightarrow> if a = 0x2F \<and> b = 0x2A then until_close cs else None
      | _ \<Rightarrow> None)"

subsection \<open>A small mission\<close>

text \<open>The registry of the examples below: the tag class \<^verbatim>\<open>TG\<close> with \<^verbatim>\<open>tag = "MYTAG"\<close>, its
  category \<^verbatim>\<open>utils\<close> with the functions \<^verbatim>\<open>doThing\<close> and \<^verbatim>\<open>other\<close>, and its category
  \<^verbatim>\<open>Net\<close> with \<^verbatim>\<open>tag = "NET"\<close> and the function \<^verbatim>\<open>send\<close>, declared in an included file.\<close>

definition at_line :: "nat \<Rightarrow> string option \<Rightarrow> FileLocation" where
  "at_line n f = \<lparr> loc_filename = f, loc_range = ((n, 0), (n, 10)) \<rparr>"

definition fn_doThing :: Class where
  "fn_doThing = Class ''doThing'' (ClassBody [] []) (at_line 4 None)"

definition fn_other :: Class where
  "fn_other = Class ''other'' (ClassBody [] []) (at_line 5 None)"

definition fn_send :: Class where
  "fn_send = Class ''send'' (ClassBody [] []) (at_line 2 (Some ''/ws/net.hpp''))"

definition cat_utils :: Class where
  "cat_utils =
     Class ''utils'' (ClassBody [(''dothing'', fn_doThing), (''other'', fn_other)] [])
       (at_line 3 None)"

definition cat_net :: Class where
  "cat_net =
     Class ''Net'' (ClassBody [(''send'', fn_send)] [(''tag'', ''NET'')])
       (at_line 1 (Some ''/ws/net.hpp''))"

definition tag_tg :: Class where
  "tag_tg =
     Class ''TG'' (ClassBody [(''utils'', cat_utils), (''net'', cat_net)] [(''tag'', ''MYTAG'')])
       (at_line 2 None)"

definition mission_cfg :: Class where
  "mission_cfg = Class ''CfgFunctions'' (ClassBody [(''tg'', tag_tg)] []) (at_line 1 None)"

definition mission_disk :: filesystem where
  "mission_disk p =
     (if p = ''/ws/description.ext'' then Some (File (utf16 ''class CfgFunctions {};''))
      else if p = ''/ws/functions/utils/fn_doThing.sqf''
        then Some (File (utf16 ''private _x = 1; /* Does a thing */ hint str _x; /* end */''))
      else None)"

text \<open>The environment of the examples. Its \<^verbatim>\<open>Docstring.parse\<close> takes the whole interior as
  the short description, without parameters and without a return type; \<^verbatim>\<open>Uri.file\<close> writes
  \<^verbatim>\<open>file://\<close> before the path and throws when it is given \<^verbatim>\<open>undefined\<close>.\<close>

definition mission_env :: "string env" where
  "mission_env =
     \<lparr> os = posix,
       getSettings = \<lparr> includePrefixes = Some [], descriptionFiles = [],
                       discoverDescriptionFiles = False, exclude = [] \<rparr>,
       disk = mission_disk,
       uri_file = (\<lambda>f. ''file://'' @ f),
       uri_file_undefined = Inl (Exception ''TypeError''),
       hpp_parse = (\<lambda>f. ([f], Inr (ClassBody [(''cfgfunctions'', mission_cfg)] []))),
       docstring_parse = (\<lambda>interior. Inr (map (\<lambda>c. char_of (uint c)) interior)),
       glob = (\<lambda>pattern ignore root. []),
       info_head = (\<lambda>i. i @ crlf),
       info_returns = (\<lambda>i. []),
       info_args = (\<lambda>i. ''ANY'') \<rparr>"




text \<open>A registry whose tag class \<^verbatim>\<open>ABC\<close> has no \<^verbatim>\<open>tag\<close> variable.\<close>

definition fn_boom :: Class where
  "fn_boom = Class ''boom'' (ClassBody [] []) (at_line 3 None)"

definition cat_fx :: Class where
  "cat_fx = Class ''fx'' (ClassBody [(''boom'', fn_boom)] []) (at_line 2 None)"

definition tag_abc :: Class where
  "tag_abc = Class ''ABC'' (ClassBody [(''fx'', cat_fx)] []) (at_line 1 None)"

definition abc_cfg :: Class where
  "abc_cfg = Class ''CfgFunctions'' (ClassBody [(''abc'', tag_abc)] []) (at_line 0 None)"

text \<open>The module after one pass over the small mission, and the same root parsed again
  after \<^verbatim>\<open>CfgFunctions\<close> has been removed from it.\<close>

definition indexed_module :: "string ExtModule" where
  "indexed_module = parseFile_callback mission_env ''/ws/description.ext'' initial"

definition no_registry_env :: "string env" where
  "no_registry_env = mission_env\<lparr> hpp_parse := (\<lambda>f. ([f], Inr (ClassBody [] []))) \<rparr>"

text \<open>A workspace with two listed root files; the first one has a syntax error.\<close>

definition two_roots_env :: "string env" where
  "two_roots_env =
     mission_env
       \<lparr> getSettings := \<lparr> includePrefixes = Some [],
                           descriptionFiles = [''a/description.ext'', ''b/description.ext''],
                           discoverDescriptionFiles = False, exclude = [] \<rparr>,
         disk := (\<lambda>p. if p = ''/ws/a/description.ext'' \<or> p = ''/ws/b/description.ext''
                      then Some (File (utf16 ''class CfgFunctions'')) else None),
         hpp_parse := (\<lambda>f. if f = ''/ws/a/description.ext''
                            then ([f], Inl (ParseError (Some f) ((0, 18), (0, 19)) ''Expected {''))
                            else ([f], Inr (ClassBody [(''cfgfunctions'', mission_cfg)] []))) \<rparr>"

section \<open>Properties\<close>

subsection \<open>Path resolution\<close>

lemma applyPrefixes_find:
  "applyPrefixes pl root ps fname =
     (case find (\<lambda>(pre, mapped). prefix pre fname) ps of
        None \<Rightarrow> None
      | Some (pre, mapped) \<Rightarrow>
          Some (if path_isAbsolute pl mapped then mapped @ drop (length pre) fname
                else path_join pl root (mapped @ drop (length pre) fname)))"
  by (induction ps) auto

text \<open>
  C2, as amended. The first include prefix, in iteration order, that the file name starts
  with decides: when its mapped path is absolute, the result is the mapped path followed
  by the file name without the prefix, with no separator put between them; when it is
  relative, that string is joined to the directory of the root file; when no prefix
  matches, or no prefixes are configured, the file name is joined to the directory of
  the root file. With the prefix made of a backslash, \<^verbatim>\<open>A3\<close> and a backslash, mapped to
  \<^verbatim>\<open>C:/Data\<close> (absolute on Windows), the file \<^verbatim>\<open>foo.sqf\<close> under that prefix becomes
  \<^verbatim>\<open>C:/Datafoo.sqf\<close>: the second backslash belongs to the prefix and is removed with it.
\<close>

theorem resolveFilename_first_prefix:
  "resolveFilename pl settings root fname =
     (case includePrefixes settings of
        None \<Rightarrow> path_join pl root fname
      | Some ps \<Rightarrow>
          (case find (\<lambda>(pre, mapped). prefix pre fname) ps of
             None \<Rightarrow> path_join pl root fname
           | Some (pre, mapped) \<Rightarrow>
               if path_isAbsolute pl mapped then mapped @ drop (length pre) fname
               else path_join pl root (mapped @ drop (length pre) fname)))
   \<and> resolveFilename (pl\<lparr>path_isAbsolute := win32_isAbsolute\<rparr>)
         (settings\<lparr>includePrefixes := Some [(CHR 0x5C # ''A3'' @ [CHR 0x5C], ''C:/Data'')]\<rparr>)
         root (CHR 0x5C # ''A3'' @ CHR 0x5C # ''foo.sqf'')
       = ''C:/Datafoo.sqf''"
proof
  show "resolveFilename pl settings root fname =
     (case includePrefixes settings of
        None \<Rightarrow> path_join pl root fname
      | Some ps \<Rightarrow>
          (case find (\<lambda>(pre, mapped). prefix pre fname) ps of
             None \<Rightarrow> path_join pl root fname
           | Some (pre, mapped) \<Rightarrow>
               if path_isAbsolute pl mapped then mapped @ drop (length pre) fname
               else path_join pl root (mapped @ drop (length pre) fname)))"
    by (simp add: resolveFilename_def applyPrefixes_find split: option.splits prod.splits)
next
  show "resolveFilename (pl\<lparr>path_isAbsolute := win32_isAbsolute\<rparr>)
         (settings\<lparr>includePrefixes := Some [(CHR 0x5C # ''A3'' @ [CHR 0x5C], ''C:/Data'')]\<rparr>)
         root (CHR 0x5C # ''A3'' @ CHR 0x5C # ''foo.sqf'')
       = ''C:/Datafoo.sqf''"
    by (simp add: resolveFilename_def isPathSeparator_def isWindowsDeviceRoot_def
          upper_chars_def)
qed

text \<open>The earlier of two matching prefixes wins, although the later one is longer; its
  relative mapped path is joined to the root without a separator after \<^verbatim>\<open>vendor\<close>.\<close>

theorem resolveFilename_first_prefix_witness:
  "resolveFilename posix
     \<lparr> includePrefixes = Some [(''lib/'', ''vendor''), (''lib/core/'', ''/opt/core/'')],
       descriptionFiles = [], discoverDescriptionFiles = False, exclude = [] \<rparr>
     ''/ws'' ''lib/core/fn_a.sqf'' = ''/ws/vendorcore/fn_a.sqf''"
  using resolveFilename_first_prefix [of posix
     "\<lparr> includePrefixes = Some [(''lib/'', ''vendor''), (''lib/core/'', ''/opt/core/'')],
       descriptionFiles = [], discoverDescriptionFiles = False, exclude = [] \<rparr>"
     "''/ws''" "''lib/core/fn_a.sqf''"]
  by (simp add: posix_def posix_isAbsolute_def posix_join_def posix_normalize_def
        normalizeString_def normalizeSegment_def)

text \<open>The example of the claim as it is written: on Windows path rules (\<^verbatim>\<open>C:/Data\<close> is
  absolute) the result has no backslash before \<^verbatim>\<open>foo.sqf\<close>, and on POSIX path rules
  (\<^verbatim>\<open>C:/Data\<close> is relative) it is joined to the root.\<close>

theorem resolveFilename_example_counterexample:
  "resolveFilename (posix\<lparr>path_isAbsolute := win32_isAbsolute\<rparr>)
     \<lparr> includePrefixes = Some [(CHR 0x5C # ''A3'' @ [CHR 0x5C], ''C:/Data'')],
       descriptionFiles = [], discoverDescriptionFiles = False, exclude = [] \<rparr>
     ''/ws'' (CHR 0x5C # ''A3'' @ CHR 0x5C # ''foo.sqf'')
     \<noteq> ''C:/Data'' @ CHR 0x5C # ''foo.sqf''
   \<and> resolveFilename posix
     \<lparr> includePrefixes = Some [(CHR 0x5C # ''A3'' @ [CHR 0x5C], ''C:/Data'')],
       descriptionFiles = [], discoverDescriptionFiles = False, exclude = [] \<rparr>
     ''/ws'' (CHR 0x5C # ''A3'' @ CHR 0x5C # ''foo.sqf'')
     \<noteq> ''C:/Data'' @ CHR 0x5C # ''foo.sqf''"
  by (simp add: resolveFilename_def posix_def isPathSeparator_def isWindowsDeviceRoot_def
        upper_chars_def posix_isAbsolute_def posix_join_def posix_normalize_def
        normalizeString_def normalizeSegment_def)

subsection \<open>POSIX paths made of plain segments\<close>

lemma split_slash_nonempty [simp]: "split_slash s \<noteq> []"
  by (induction s) (auto split: list.splits)

lemma split_slash_plain: "CHR ''/'' \<notin> set s \<Longrightarrow> split_slash s = [s]"
  by (induction s) auto

lemma split_slash_append:
  "split_slash (a @ CHR ''/'' # b) = split_slash a @ split_slash b"
  by (induction a) (auto split: list.splits)

lemma split_join_slash:
  "segs \<noteq> [] \<Longrightarrow> list_all (\<lambda>s. CHR ''/'' \<notin> set s) segs \<Longrightarrow> split_slash (join_slash segs) = segs"
proof (induction segs rule: join_slash.induct)
  case 1 then show ?case by simp
next
  case (2 s) then show ?case by (simp add: split_slash_plain)
next
  case (3 s t ss)
  then show ?case by (simp add: split_slash_append split_slash_plain)
qed

lemma join_slash_append:
  "xs \<noteq> [] \<Longrightarrow> ys \<noteq> [] \<Longrightarrow> join_slash (xs @ ys) = join_slash xs @ CHR ''/'' # join_slash ys"
proof (induction xs rule: join_slash.induct)
  case 1 then show ?case by simp
next
  case (2 s) then show ?case by (cases ys) auto
next
  case (3 s t ss) then show ?case by simp
qed

lemma foldl_normalizeSegment_plain:
  "list_all plain_segment segs \<Longrightarrow> foldl (normalizeSegment b) acc segs = acc @ segs"
  by (induction segs arbitrary: acc) (auto simp: normalizeSegment_def plain_segment_def)

lemma join_slash_eq_Nil: "list_all plain_segment segs \<Longrightarrow> join_slash segs = [] \<longleftrightarrow> segs = []"
  by (induction segs rule: join_slash.induct) (auto simp: plain_segment_def)

lemma hd_not_in: "s \<noteq> [] \<Longrightarrow> c \<notin> set s \<Longrightarrow> hd s \<noteq> c"
  by (cases s) auto

lemma last_not_in: "s \<noteq> [] \<Longrightarrow> c \<notin> set s \<Longrightarrow> last s \<noteq> c"
  using last_in_set by metis

lemma hd_join_slash: "segs \<noteq> [] \<Longrightarrow> list_all plain_segment segs \<Longrightarrow> hd (join_slash segs) \<noteq> CHR ''/''"
  by (induction segs rule: join_slash.induct) (auto simp: plain_segment_def hd_append hd_not_in)

lemma last_join_slash: "segs \<noteq> [] \<Longrightarrow> list_all plain_segment segs \<Longrightarrow> last (join_slash segs) \<noteq> CHR ''/''"
proof (induction segs rule: join_slash.induct)
  case 1 then show ?case by simp
next
  case (2 s) then show ?case by (auto simp: plain_segment_def last_not_in)
next
  case (3 s t ss)
  then have "join_slash (t # ss) \<noteq> []" using join_slash_eq_Nil[of "t # ss"] by simp
  with 3 show ?case by simp
qed

lemma posix_normalize_plain:
  assumes "segs \<noteq> []" "list_all plain_segment segs"
  shows "posix_normalize (join_slash segs) = join_slash segs"
proof -
  have ne: "join_slash segs \<noteq> []" using assms join_slash_eq_Nil by blast
  have noslash: "list_all (\<lambda>s. CHR ''/'' \<notin> set s) segs"
    using assms(2) by (induction segs) (auto simp: plain_segment_def)
  have "normalizeString (join_slash segs) True = join_slash segs"
    using assms noslash by (simp add: normalizeString_def split_join_slash foldl_normalizeSegment_plain)
  then show ?thesis
    using ne hd_join_slash[OF assms] last_join_slash[OF assms]
    by (simp add: posix_normalize_def Let_def)
qed

lemma posix_join_plain:
  assumes "xs \<noteq> []" "ys \<noteq> []" "list_all plain_segment xs" "list_all plain_segment ys"
  shows "posix_join (join_slash xs) (join_slash ys) = join_slash (xs @ ys)"
proof -
  have "join_slash xs \<noteq> []" "join_slash ys \<noteq> []"
    using assms join_slash_eq_Nil by blast+
  moreover have "posix_normalize (join_slash (xs @ ys)) = join_slash (xs @ ys)"
    using assms by (intro posix_normalize_plain) auto
  ultimately show ?thesis
    using assms by (simp add: posix_join_def join_slash_append)
qed

lemma default_relative_path:
  assumes "plain_segment c" "CHR ''/'' \<notin> set n"
  shows "posix_join (posix_join ''functions'' c) (''fn_'' @ n @ ''.sqf'')
         = ''functions/'' @ c @ ''/fn_'' @ n @ ''.sqf''"
proof -
  have f: "plain_segment (''fn_'' @ n @ ''.sqf'')" using assms(2) by (simp add: plain_segment_def)
  have fu: "plain_segment ''functions''" by (simp add: plain_segment_def)
  have 1: "posix_join ''functions'' c = join_slash [''functions'', c]"
    using posix_join_plain[of "[''functions'']" "[c]"] assms(1) fu by simp
  have 2: "posix_join (join_slash [''functions'', c]) (''fn_'' @ n @ ''.sqf'') = join_slash ([''functions'', c] @ [''fn_'' @ n @ ''.sqf''])"
    using posix_join_plain[of "[''functions'', c]" "[''fn_'' @ n @ ''.sqf'']"] assms(1) fu f by simp
  show ?thesis unfolding 1 2 by simp
qed

subsection \<open>Windows paths made of plain segments\<close>

lemma split_sep_nonempty [simp]: "split_sep s \<noteq> []"
  by (induction s) (auto split: list.splits)

lemma split_sep_plain: "list_all (\<lambda>c. \<not> isPathSeparator c) s \<Longrightarrow> split_sep s = [s]"
  by (induction s) auto

lemma split_sep_append:
  "isPathSeparator x \<Longrightarrow> split_sep (a @ x # b) = split_sep a @ split_sep b"
  by (induction a) (auto split: list.splits)

lemma split_join_backslash:
  "segs \<noteq> [] \<Longrightarrow> list_all (list_all (\<lambda>c. \<not> isPathSeparator c)) segs
   \<Longrightarrow> split_sep (join_backslash segs) = segs"
proof (induction segs rule: join_backslash.induct)
  case 1 then show ?case by simp
next
  case (2 s) then show ?case by (simp add: split_sep_plain)
next
  case (3 s t ss)
  then show ?case by (simp add: split_sep_append split_sep_plain isPathSeparator_def)
qed

lemma join_backslash_append:
  "xs \<noteq> [] \<Longrightarrow> ys \<noteq> []
   \<Longrightarrow> join_backslash (xs @ ys) = join_backslash xs @ CHR 0x5C # join_backslash ys"
proof (induction xs rule: join_backslash.induct)
  case 1 then show ?case by simp
next
  case (2 s) then show ?case by (cases ys) auto
next
  case (3 s t ss) then show ?case by simp
qed

lemma plain_win32_no_separator:
  "plain_win32_segment s \<Longrightarrow> list_all (\<lambda>c. \<not> isPathSeparator c) s"
  unfolding list_all_iff isPathSeparator_def plain_win32_segment_def plain_segment_def
  by auto

lemma join_backslash_eq_Nil:
  "list_all plain_win32_segment segs \<Longrightarrow> join_backslash segs = [] \<longleftrightarrow> segs = []"
  by (induction segs rule: join_backslash.induct)
     (auto simp: plain_win32_segment_def plain_segment_def)

lemma last_join_backslash:
  "segs \<noteq> [] \<Longrightarrow> list_all plain_win32_segment segs
   \<Longrightarrow> \<not> isPathSeparator (last (join_backslash segs))"
proof (induction segs rule: join_backslash.induct)
  case 1 then show ?case by simp
next
  case (2 s)
  then have ps: "plain_win32_segment s" by simp
  then have "s \<noteq> []" by (simp add: plain_win32_segment_def plain_segment_def)
  moreover have "list_all (\<lambda>c. \<not> isPathSeparator c) s"
    using ps by (rule plain_win32_no_separator)
  ultimately show ?case using last_in_set[of s] by (auto simp: list_all_iff)
next
  case (3 s t ss)
  then have "join_backslash (t # ss) \<noteq> []" using join_backslash_eq_Nil[of "t # ss"] by simp
  with 3 show ?case by simp
qed

lemma plain_functions: "plain_win32_segment ''functions''"
  by (simp add: plain_win32_segment_def plain_segment_def)

lemma win32_normalize_functions:
  assumes "list_all plain_win32_segment segs"
  shows "win32_normalize (join_backslash (''functions'' # segs)) = join_backslash (''functions'' # segs)"
proof -
  let ?p = "join_backslash (''functions'' # segs)"
  have all: "list_all plain_win32_segment (''functions'' # segs)"
    using assms plain_functions by simp
  obtain rest where p: "?p = CHR ''f'' # CHR ''u'' # rest"
    by (cases segs) auto
  have ne: "?p \<noteq> []" using p by simp
  have nosep: "list_all (list_all (\<lambda>c. \<not> isPathSeparator c)) (''functions'' # segs)"
    using all plain_win32_no_separator unfolding list_all_iff by blast
  have plain: "list_all plain_segment (''functions'' # segs)"
    using all unfolding list_all_iff plain_win32_segment_def by blast
  have sp: "split_sep ?p = ''functions'' # segs"
    by (rule split_join_backslash[OF _ nosep]) simp
  have fo: "foldl (normalizeSegment True) [] (''functions'' # segs) = ''functions'' # segs"
    using foldl_normalizeSegment_plain[OF plain, of True "[]"] by simp
  have ns: "win32_normalizeString ?p True = ?p"
    unfolding win32_normalizeString_def sp fo ..
  have last: "\<not> isPathSeparator (last ?p)"
    using all by (intro last_join_backslash) simp
  have "win32_normalize (CHR ''f'' # CHR ''u'' # rest)
          = win32_tail (CHR ''f'' # CHR ''u'' # rest) None (CHR ''f'' # CHR ''u'' # rest) False"
    by (simp add: win32_normalize_def isPathSeparator_def)
  then have "win32_normalize ?p = win32_tail ?p None ?p False"
    unfolding p .
  also have "\<dots> = ?p"
    using ns last ne by (simp add: win32_tail_def Let_def)
  finally show ?thesis .
qed

lemma win32_join_functions:
  assumes "ys \<noteq> []" "list_all plain_win32_segment xs" "list_all plain_win32_segment ys"
  shows "win32_join (join_backslash (''functions'' # xs)) (join_backslash ys)
         = join_backslash (''functions'' # xs @ ys)"
proof -
  let ?a = "join_backslash (''functions'' # xs)"
  let ?b = "join_backslash ys"
  obtain rest where a: "?a = CHR ''f'' # CHR ''u'' # CHR ''n'' # rest"
    by (cases xs) auto
  have b: "?b \<noteq> []" using assms join_backslash_eq_Nil by blast
  have j: "?a @ CHR 0x5C # ?b = join_backslash (''functions'' # xs @ ys)"
    using join_backslash_append[of "''functions'' # xs" ys] assms(1) by simp
  have "win32_join (CHR ''f'' # CHR ''u'' # CHR ''n'' # rest) ?b
          = win32_normalize ((CHR ''f'' # CHR ''u'' # CHR ''n'' # rest) @ CHR 0x5C # ?b)"
    using b by (simp add: win32_join_def Let_def isPathSeparator_def)
  then have "win32_join ?a ?b = win32_normalize (?a @ CHR 0x5C # ?b)"
    unfolding a .
  also have "\<dots> = join_backslash (''functions'' # xs @ ys)"
    unfolding j using assms by (intro win32_normalize_functions) simp
  finally show ?thesis .
qed

lemma default_relative_path_win32:
  assumes "plain_win32_segment c" "list_all (\<lambda>x. \<not> isPathSeparator x) n"
  shows "win32_join (win32_join ''functions'' c) (''fn_'' @ n @ ''.sqf'')
         = ''functions'' @ CHR 0x5C # c @ CHR 0x5C # ''fn_'' @ n @ ''.sqf''"
proof -
  have f: "plain_win32_segment (''fn_'' @ n @ ''.sqf'')"
    using assms(2)
    unfolding list_all_iff isPathSeparator_def plain_win32_segment_def plain_segment_def
    by auto
  have 1: "win32_join ''functions'' c = join_backslash [''functions'', c]"
    using win32_join_functions[of "[c]" "[]"] assms(1) by simp
  have 2: "win32_join (join_backslash [''functions'', c]) (''fn_'' @ n @ ''.sqf'')
             = join_backslash [''functions'', c, ''fn_'' @ n @ ''.sqf'']"
    using win32_join_functions[of "[''fn_'' @ n @ ''.sqf'']" "[c]"] assms(1) f by simp
  show ?thesis unfolding 1 2 by simp
qed

subsection \<open>The three loops as one loop over the declarations\<close>

lemma fold_concat: "fold f (concat xss) = fold (fold f) xss"
  by (induction xss) auto

lemma processCategory_flat:
  "processCategory env rf (path_dirname (os env) rf) (tag_of t) c =
     fold (decl_step env rf) (map (\<lambda>(functionName, functionClass). (t, c, functionClass)) (classes (body c)))"
  by (auto simp: processCategory_def decl_step_def fold_map comp_def case_prod_unfold Let_def)

lemma processTag_flat:
  "processTag env rf (path_dirname (os env) rf) t =
     fold (decl_step env rf)
       (concat (map (\<lambda>(category, categoryClass).
                       map (\<lambda>(functionName, functionClass). (t, categoryClass, functionClass))
                         (classes (body categoryClass)))
                  (classes (body t))))"
  by (auto simp: processTag_def fold_concat fold_map comp_def case_prod_unfold processCategory_flat)

lemma scanCfgFunctions_flat:
  "scanCfgFunctions env cfg rf =
     fold (decl_step env rf) (declarations cfg) \<lparr> fns = [], diagnostics = [], functionsCount = 0 \<rparr>"
  by (simp add: scanCfgFunctions_def declarations_def fold_concat fold_map comp_def
        case_prod_unfold processTag_flat)

lemma fns_decl_step:
  "fns (decl_step env rf d st) =
     AList.update (toLowerCase (decl_name d)) (decl_record env rf d) (fns st)"
  by (cases d) (simp add: decl_step_def processFunction_def Let_def decl_name_def decl_record_def
        decl_filename_def)


lemma functionsCount_decl_step:
  "functionsCount (decl_step env rf d st) = Suc (functionsCount st)"
  by (cases d) (simp add: decl_step_def processFunction_def Let_def)

lemma fns_fold_decl_step:
  "fns (fold (decl_step env rf) ds st) =
     fold (\<lambda>d. AList.update (toLowerCase (decl_name d)) (decl_record env rf d)) ds (fns st)"
  by (induction ds arbitrary: st) (simp_all add: fns_decl_step)


lemma find_app:
  "find P (xs @ ys) = (case find P xs of None \<Rightarrow> find P ys | Some x \<Rightarrow> Some x)"
  by (induction xs) auto

lemma map_of_fold_update:
  "map_of (fold (\<lambda>d. AList.update (k d) (v d)) ds al) x =
     (case find (\<lambda>d. k d = x) (rev ds) of
        None \<Rightarrow> map_of al x
      | Some d \<Rightarrow> Some (v d))"
proof (induction ds arbitrary: al)
  case Nil
  then show ?case by simp
next
  case (Cons d ds)
  show ?case
    by (simp add: Cons.IH find_app update_conv' split: option.splits)
qed



subsection \<open>The table after processCfgFunctions\<close>

lemma loadDoc_same:
  "loadDoc env fnc = Inr fnc' \<Longrightarrow> name fnc' = name fnc \<and> filename fnc' = filename fnc"
  by (auto simp: loadDoc_def split: if_splits sum.splits option.splits)


lemma loadDocs_entry:
  "map_of table key = Some fnc \<Longrightarrow>
   \<exists>fnc'. map_of (fst (loadDocs env table)) key = Some fnc' \<and>
          name fnc' = name fnc \<and> filename fnc' = filename fnc"
proof (induction table)
  case Nil
  then show ?case by simp
next
  case (Cons p table)
  obtain f g where p: "p = (f, g)" by (cases p)
  show ?case
  proof (cases "loadDoc env g")
    case (Inl e)
    with Cons.prems p show ?thesis by auto
  next
    case (Inr g')
    show ?thesis
    proof (cases "f = key")
      case True
      with Cons.prems p Inr loadDoc_same[OF Inr] show ?thesis
        by (auto split: prod.splits)
    next
      case False
      with Cons p Inr show ?thesis by (auto split: prod.splits)
    qed
  qed
qed

lemma this_functions_fold_send:
  "this_functions (fold (\<lambda>(uri, ds). sendDiagnostics uri ds) xs m) = this_functions m"
  by (induction xs arbitrary: m) (auto simp: sendDiagnostics_def)


lemma processCfgFunctions_table:
  "map_of (this_functions (fst (processCfgFunctions env cfg rf m))) rf =
     Some (fst (loadDocs env (fns (scanCfgFunctions env cfg rf))))"
  by (simp add: processCfgFunctions_def Let_def tryToLoadDocs_def this_functions_fold_send
        update_conv' split: prod.splits)


lemma declarations_member:
  "(tag, tagClass) \<in> set (classes (body cfg)) \<Longrightarrow>
   (category, categoryClass) \<in> set (classes (body tagClass)) \<Longrightarrow>
   (functionName, functionClass) \<in> set (classes (body categoryClass)) \<Longrightarrow>
   (tagClass, categoryClass, functionClass) \<in> set (declarations cfg)"
  by (force simp: declarations_def)

lemma find_SomeD: "find P xs = Some x \<Longrightarrow> P x \<and> x \<in> set xs"
  by (induction xs) (auto split: if_splits)

lemma scan_lookup_unique:
  assumes mem: "d \<in> set (declarations cfg)"
    and unique: "\<forall>d' \<in> set (declarations cfg).
                   toLowerCase (decl_name d') = toLowerCase (decl_name d) \<longrightarrow> d' = d"
  shows "map_of (fns (scanCfgFunctions env cfg rf)) (toLowerCase (decl_name d)) =
           Some (decl_record env rf d)"
proof -
  let ?P = "\<lambda>d'. toLowerCase (decl_name d') = toLowerCase (decl_name d)"
  from mem have "find ?P (rev (declarations cfg)) \<noteq> None"
    unfolding find_None_iff by (metis set_rev)
  then obtain d' where f: "find ?P (rev (declarations cfg)) = Some d'"
    by blast
  then have "?P d'" "d' \<in> set (declarations cfg)"
    using find_SomeD[OF f] by auto
  with unique have "d' = d" by blast
  with f show ?thesis
    by (simp add: scanCfgFunctions_flat fns_fold_decl_step map_of_fold_update)
qed

subsection \<open>Default names and paths\<close>


lemmas lower_defs = toLowerCase_def char_toLowerCase_def upper_chars_def lower_chars_def

lemmas posix_defs = posix_def posix_join_def posix_normalize_def normalizeString_def
  normalizeSegment_def posix_isAbsolute_def posix_dirname_def posix_basename_def
  posix_extname_def

text \<open>
  C1. A function class \<open>functionClass\<close> under a category class under a tag class of the
  registry, where neither the category nor the function carries a \<^verbatim>\<open>tag\<close>, \<^verbatim>\<open>file\<close> or
  \<^verbatim>\<open>ext\<close> variable. \<open>T\<close> is the effective tag of the tag class: the value of its \<^verbatim>\<open>tag\<close>
  variable, when it has one that is not empty, and its class name, when it has none. The
  function gets the qualified name \<^verbatim>\<open><T>_fnc_<name>\<close>, and its relative file name, before
  the include prefixes and the root are applied, is what \<^verbatim>\<open>path.join\<close> makes of
  \<^verbatim>\<open>functions\<close>, the category's class name and \<^verbatim>\<open>fn_<name>.sqf\<close>: with the POSIX
  \<^verbatim>\<open>path.join\<close> it is \<^verbatim>\<open>functions/<C>/fn_<name>.sqf\<close>, and with the Windows one the same
  three segments with backslashes between them (the class names being plain path
  segments). When no other declaration of the registry has the same lower-cased qualified
  name, the table of the root holds a record with that name and the resolved path under
  the lower-cased name after \<^verbatim>\<open>processCfgFunctions\<close>.
\<close>

theorem default_name_and_path:
  assumes tag: "(tag, tagClass) \<in> set (classes (body cfgFunctions))"
    and cat: "(category, categoryClass) \<in> set (classes (body tagClass))"
    and fn: "(functionName, functionClass) \<in> set (classes (body categoryClass))"
    and effective:
      "map_of (variables (body tagClass)) ''tag'' = Some T \<and> T \<noteq> []
       \<or> map_of (variables (body tagClass)) ''tag'' = None \<and> T = class_name tagClass"
    and no_cat_tag: "map_of (variables (body categoryClass)) ''tag'' = None"
    and no_cat_file: "map_of (variables (body categoryClass)) ''file'' = None"
    and no_fn_file: "map_of (variables (body functionClass)) ''file'' = None"
    and no_fn_ext: "map_of (variables (body functionClass)) ''ext'' = None"
  shows
    "fullFunctionName (categoryTag_of (tag_of tagClass) categoryClass) functionClass
       = T @ ''_fnc_'' @ class_name functionClass
     \<and> relativeFilename (os env) (categoryPath_of (os env) categoryClass) functionClass
       = path_join (os env) (path_join (os env) ''functions'' (class_name categoryClass))
           (''fn_'' @ class_name functionClass @ ''.sqf'')
     \<and> (path_join (os env) = posix_join \<and> plain_segment (class_name categoryClass)
          \<and> CHR ''/'' \<notin> set (class_name functionClass)
        \<longrightarrow> relativeFilename (os env) (categoryPath_of (os env) categoryClass) functionClass
            = ''functions/'' @ class_name categoryClass @ ''/fn_'' @ class_name functionClass
              @ ''.sqf'')
     \<and> (path_join (os env) = win32_join \<and> plain_win32_segment (class_name categoryClass)
          \<and> list_all (\<lambda>c. \<not> isPathSeparator c) (class_name functionClass)
        \<longrightarrow> relativeFilename (os env) (categoryPath_of (os env) categoryClass) functionClass
            = ''functions'' @ CHR 0x5C # class_name categoryClass @ CHR 0x5C # ''fn_''
              @ class_name functionClass @ ''.sqf'')
     \<and> ((\<forall>d \<in> set (declarations cfgFunctions).
            toLowerCase (decl_name d) = toLowerCase (T @ ''_fnc_'' @ class_name functionClass)
            \<longrightarrow> d = (tagClass, categoryClass, functionClass))
          \<longrightarrow> (\<exists>table fnc.
                 map_of (this_functions (fst (processCfgFunctions env cfgFunctions rootFilename m)))
                   rootFilename = Some table
               \<and> map_of table (toLowerCase (T @ ''_fnc_'' @ class_name functionClass)) = Some fnc
               \<and> name fnc = T @ ''_fnc_'' @ class_name functionClass
               \<and> filename fnc =
                   resolveFilename (os env) (getSettings env) (path_dirname (os env) rootFilename)
                     (path_join (os env)
                        (path_join (os env) ''functions'' (class_name categoryClass))
                        (''fn_'' @ class_name functionClass @ ''.sqf''))))"
proof -
  let ?d = "(tagClass, categoryClass, functionClass)"
  let ?full = "T @ ''_fnc_'' @ class_name functionClass"
  let ?rel = "path_join (os env) (path_join (os env) ''functions'' (class_name categoryClass))
                (''fn_'' @ class_name functionClass @ ''.sqf'')"
  have T: "tag_of tagClass = T"
    using effective by (auto simp: tag_of_def or_else_def)
  have nm: "fullFunctionName (categoryTag_of (tag_of tagClass) categoryClass) functionClass = ?full"
    using no_cat_tag by (simp add: T fullFunctionName_def categoryTag_of_def or_else_def)
  have rel: "relativeFilename (os env) (categoryPath_of (os env) categoryClass) functionClass = ?rel"
    using no_cat_file no_fn_file no_fn_ext
    by (simp add: relativeFilename_def categoryPath_of_def or_else_def)
  have px: "relativeFilename (os env) (categoryPath_of (os env) categoryClass) functionClass
            = ''functions/'' @ class_name categoryClass @ ''/fn_'' @ class_name functionClass
              @ ''.sqf''"
    if "path_join (os env) = posix_join" "plain_segment (class_name categoryClass)"
       "CHR ''/'' \<notin> set (class_name functionClass)"
    unfolding rel that(1) using that(2,3) by (rule default_relative_path)
  have wn: "relativeFilename (os env) (categoryPath_of (os env) categoryClass) functionClass
            = ''functions'' @ CHR 0x5C # class_name categoryClass @ CHR 0x5C # ''fn_''
              @ class_name functionClass @ ''.sqf''"
    if "path_join (os env) = win32_join" "plain_win32_segment (class_name categoryClass)"
       "list_all (\<lambda>c. \<not> isPathSeparator c) (class_name functionClass)"
    unfolding rel that(1) using that(2,3) by (rule default_relative_path_win32)
  have dn: "decl_name ?d = ?full" using nm by (simp add: decl_name_def)
  have df: "decl_filename env rootFilename ?d
              = resolveFilename (os env) (getSettings env) (path_dirname (os env) rootFilename) ?rel"
    using rel by (simp add: decl_filename_def)
  have entry: "\<exists>table fnc.
                 map_of (this_functions (fst (processCfgFunctions env cfgFunctions rootFilename m)))
                   rootFilename = Some table
               \<and> map_of table (toLowerCase ?full) = Some fnc
               \<and> name fnc = ?full
               \<and> filename fnc
                   = resolveFilename (os env) (getSettings env) (path_dirname (os env) rootFilename)
                       ?rel"
    if unique: "\<forall>d \<in> set (declarations cfgFunctions).
            toLowerCase (decl_name d) = toLowerCase ?full \<longrightarrow> d = ?d"
  proof -
    have mem: "?d \<in> set (declarations cfgFunctions)"
      using declarations_member[OF tag cat fn] .
    have "map_of (fns (scanCfgFunctions env cfgFunctions rootFilename)) (toLowerCase (decl_name ?d))
            = Some (decl_record env rootFilename ?d)"
      using mem unique unfolding dn[symmetric] by (rule scan_lookup_unique)
    from loadDocs_entry[OF this, of env]
    obtain fnc where
      "map_of (fst (loadDocs env (fns (scanCfgFunctions env cfgFunctions rootFilename))))
         (toLowerCase (decl_name ?d)) = Some fnc"
      "name fnc = decl_name ?d" "filename fnc = decl_filename env rootFilename ?d"
      by (auto simp: decl_record_def)
    then show ?thesis
      using processCfgFunctions_table[of env cfgFunctions rootFilename m] dn df by auto
  qed
  from nm rel px wn entry show ?thesis by blast
qed

text \<open>The scenario of the specification: tag \<^verbatim>\<open>MYTAG\<close>, category \<^verbatim>\<open>utils\<close>, function
  \<^verbatim>\<open>doThing\<close>, root \<^verbatim>\<open>/ws/description.ext\<close>, with the POSIX \<^verbatim>\<open>path.join\<close> and with the Windows
  one; and the tag class \<^verbatim>\<open>ABC\<close>, which has no \<^verbatim>\<open>tag\<close> variable.\<close>

theorem default_name_and_path_witness:
  "fullFunctionName (categoryTag_of (tag_of tag_tg) cat_utils) fn_doThing = ''MYTAG_fnc_doThing''
   \<and> relativeFilename posix (categoryPath_of posix cat_utils) fn_doThing
       = ''functions/utils/fn_doThing.sqf''
   \<and> (\<exists>table fnc.
         map_of (this_functions
                   (fst (processCfgFunctions mission_env mission_cfg ''/ws/description.ext'' initial)))
           ''/ws/description.ext'' = Some table
       \<and> map_of table ''mytag_fnc_dothing'' = Some fnc
       \<and> name fnc = ''MYTAG_fnc_doThing''
       \<and> filename fnc = ''/ws/functions/utils/fn_doThing.sqf'')
   \<and> relativeFilename (posix\<lparr>path_join := win32_join\<rparr>)
         (categoryPath_of (posix\<lparr>path_join := win32_join\<rparr>) cat_utils) fn_doThing
       = ''functions'' @ CHR 0x5C # ''utils'' @ CHR 0x5C # ''fn_doThing.sqf''
   \<and> fullFunctionName (categoryTag_of (tag_of tag_abc) cat_fx) fn_boom = ''ABC_fnc_boom''
   \<and> (\<exists>table fnc.
         map_of (this_functions
                   (fst (processCfgFunctions mission_env abc_cfg ''/ws/description.ext'' initial)))
           ''/ws/description.ext'' = Some table
       \<and> map_of table ''abc_fnc_boom'' = Some fnc
       \<and> name fnc = ''ABC_fnc_boom''
       \<and> filename fnc = ''/ws/functions/fx/fn_boom.sqf'')"
proof -
  let ?win = "mission_env\<lparr>os := posix\<lparr>path_join := win32_join\<rparr>\<rparr>"
  have tag: "(''tg'', tag_tg) \<in> set (classes (body mission_cfg))"
    by (simp add: mission_cfg_def)
  have cat: "(''utils'', cat_utils) \<in> set (classes (body tag_tg))"
    by (simp add: tag_tg_def)
  have fn: "(''dothing'', fn_doThing) \<in> set (classes (body cat_utils))"
    by (simp add: cat_utils_def)
  have eff: "map_of (variables (body tag_tg)) ''tag'' = Some ''MYTAG'' \<and> ''MYTAG'' \<noteq> []
             \<or> map_of (variables (body tag_tg)) ''tag'' = None \<and> ''MYTAG'' = class_name tag_tg"
    by (simp add: tag_tg_def)
  have v1: "map_of (variables (body cat_utils)) ''tag'' = None"
    and v2: "map_of (variables (body cat_utils)) ''file'' = None"
    by (simp_all add: cat_utils_def)
  have v3: "map_of (variables (body fn_doThing)) ''file'' = None"
    and v4: "map_of (variables (body fn_doThing)) ''ext'' = None"
    by (simp_all add: fn_doThing_def)
  have seg: "plain_segment (class_name cat_utils)"
    by (simp add: cat_utils_def plain_segment_def)
  have noslash: "CHR ''/'' \<notin> set (class_name fn_doThing)"
    by (simp add: fn_doThing_def)
  have wseg: "plain_win32_segment (class_name cat_utils)"
    by (simp add: cat_utils_def plain_win32_segment_def plain_segment_def)
  have wname: "list_all (\<lambda>c. \<not> isPathSeparator c) (class_name fn_doThing)"
    by (simp add: fn_doThing_def isPathSeparator_def)
  have os: "os mission_env = posix" "path_join (os mission_env) = posix_join"
    by (simp_all add: mission_env_def posix_def)
  have wos: "os ?win = posix\<lparr>path_join := win32_join\<rparr>" "path_join (os ?win) = win32_join"
    by simp_all
  have names: "class_name fn_doThing = ''doThing''" "class_name cat_utils = ''utils''"
    by (simp_all add: fn_doThing_def cat_utils_def)
  have decls: "declarations mission_cfg =
      [(tag_tg, cat_utils, fn_doThing), (tag_tg, cat_utils, fn_other), (tag_tg, cat_net, fn_send)]"
    by (simp add: declarations_def mission_cfg_def tag_tg_def cat_utils_def cat_net_def)
  have other: "toLowerCase (decl_name (tag_tg, cat_utils, fn_other)) \<noteq> ''mytag_fnc_dothing''"
    by (simp add: decl_name_def fullFunctionName_def categoryTag_of_def tag_of_def or_else_def
          tag_tg_def cat_utils_def fn_other_def lower_defs)
  have send: "toLowerCase (decl_name (tag_tg, cat_net, fn_send)) \<noteq> ''mytag_fnc_dothing''"
    by (simp add: decl_name_def fullFunctionName_def categoryTag_of_def tag_of_def or_else_def
          tag_tg_def cat_net_def fn_send_def lower_defs)
  have low: "toLowerCase ''MYTAG_fnc_doThing'' = ''mytag_fnc_dothing''"
    by (simp add: lower_defs)
  have unique: "\<forall>d \<in> set (declarations mission_cfg).
      toLowerCase (decl_name d) = toLowerCase (''MYTAG'' @ ''_fnc_'' @ class_name fn_doThing)
      \<longrightarrow> d = (tag_tg, cat_utils, fn_doThing)"
    using other send by (simp add: decls names low)
  have res: "resolveFilename posix (getSettings mission_env) (path_dirname posix ''/ws/description.ext'')
               ''functions/utils/fn_doThing.sqf'' = ''/ws/functions/utils/fn_doThing.sqf''"
    by code_simp
  note p = default_name_and_path [OF tag cat fn eff v1 v2 v3 v4,
      of mission_env "''/ws/description.ext''" initial]
  have p1: "fullFunctionName (categoryTag_of (tag_of tag_tg) cat_utils) fn_doThing
              = ''MYTAG_fnc_doThing''"
    using p [THEN conjunct1] by (simp add: names)
  have p2: "relativeFilename posix (categoryPath_of posix cat_utils) fn_doThing
              = ''functions/utils/fn_doThing.sqf''"
    using p [THEN conjunct2, THEN conjunct2, THEN conjunct1] os seg noslash
    by (simp add: names)
  have p2': "path_join posix (path_join posix ''functions'' ''utils'') ''fn_doThing.sqf''
              = ''functions/utils/fn_doThing.sqf''"
    using p [THEN conjunct2, THEN conjunct1] p2 os by (simp add: names)
  have p3: "\<exists>table fnc.
         map_of (this_functions
                   (fst (processCfgFunctions mission_env mission_cfg ''/ws/description.ext'' initial)))
           ''/ws/description.ext'' = Some table
       \<and> map_of table ''mytag_fnc_dothing'' = Some fnc
       \<and> name fnc = ''MYTAG_fnc_doThing''
       \<and> filename fnc = ''/ws/functions/utils/fn_doThing.sqf''"
    using p [THEN conjunct2, THEN conjunct2, THEN conjunct2, THEN conjunct2] unique
    by (simp add: names low os p2' res)
  have w: "relativeFilename (posix\<lparr>path_join := win32_join\<rparr>)
         (categoryPath_of (posix\<lparr>path_join := win32_join\<rparr>) cat_utils) fn_doThing
       = ''functions'' @ CHR 0x5C # ''utils'' @ CHR 0x5C # ''fn_doThing.sqf''"
    using default_name_and_path [OF tag cat fn eff v1 v2 v3 v4,
        of ?win "''/ws/description.ext''" initial,
        THEN conjunct2, THEN conjunct2, THEN conjunct2, THEN conjunct1] wos wseg wname
    by (simp add: names)
  have atag: "(''abc'', tag_abc) \<in> set (classes (body abc_cfg))"
    by (simp add: abc_cfg_def)
  have acat: "(''fx'', cat_fx) \<in> set (classes (body tag_abc))"
    by (simp add: tag_abc_def)
  have afn: "(''boom'', fn_boom) \<in> set (classes (body cat_fx))"
    by (simp add: cat_fx_def)
  have aeff: "map_of (variables (body tag_abc)) ''tag'' = Some ''ABC'' \<and> ''ABC'' \<noteq> []
             \<or> map_of (variables (body tag_abc)) ''tag'' = None \<and> ''ABC'' = class_name tag_abc"
    by (simp add: tag_abc_def)
  have a1: "map_of (variables (body cat_fx)) ''tag'' = None"
    and a2: "map_of (variables (body cat_fx)) ''file'' = None"
    by (simp_all add: cat_fx_def)
  have a3: "map_of (variables (body fn_boom)) ''file'' = None"
    and a4: "map_of (variables (body fn_boom)) ''ext'' = None"
    by (simp_all add: fn_boom_def)
  have anames: "class_name fn_boom = ''boom''" "class_name cat_fx = ''fx''"
    by (simp_all add: fn_boom_def cat_fx_def)
  have adecls: "declarations abc_cfg = [(tag_abc, cat_fx, fn_boom)]"
    by (simp add: declarations_def abc_cfg_def tag_abc_def cat_fx_def)
  have alow: "toLowerCase ''ABC_fnc_boom'' = ''abc_fnc_boom''"
    by (simp add: lower_defs)
  have aunique: "\<forall>d \<in> set (declarations abc_cfg).
      toLowerCase (decl_name d) = toLowerCase (''ABC'' @ ''_fnc_'' @ class_name fn_boom)
      \<longrightarrow> d = (tag_abc, cat_fx, fn_boom)"
    by (simp add: adecls)
  have ares: "resolveFilename posix (getSettings mission_env) (path_dirname posix ''/ws/description.ext'')
               (path_join posix (path_join posix ''functions'' ''fx'') ''fn_boom.sqf'')
             = ''/ws/functions/fx/fn_boom.sqf''"
    by code_simp
  note q = default_name_and_path [OF atag acat afn aeff a1 a2 a3 a4,
      of mission_env "''/ws/description.ext''" initial]
  have q1: "fullFunctionName (categoryTag_of (tag_of tag_abc) cat_fx) fn_boom = ''ABC_fnc_boom''"
    using q [THEN conjunct1] by (simp add: anames)
  have q3: "\<exists>table fnc.
         map_of (this_functions
                   (fst (processCfgFunctions mission_env abc_cfg ''/ws/description.ext'' initial)))
           ''/ws/description.ext'' = Some table
       \<and> map_of table ''abc_fnc_boom'' = Some fnc
       \<and> name fnc = ''ABC_fnc_boom''
       \<and> filename fnc = ''/ws/functions/fx/fn_boom.sqf''"
    using q [THEN conjunct2, THEN conjunct2, THEN conjunct2, THEN conjunct2] aunique
    by (simp add: anames alow os ares)
  from p1 p2 p3 w q1 q3 show ?thesis by (intro conjI)
qed

text \<open>The claim as it is written fails where \<^verbatim>\<open>path.join\<close> is the Windows one: the relative
  file name of \<^verbatim>\<open>doThing\<close> has backslashes, and is not \<^verbatim>\<open>functions/utils/fn_doThing.sqf\<close>.\<close>

theorem default_path_windows_counterexample:
  "relativeFilename (posix\<lparr>path_join := win32_join\<rparr>)
     (categoryPath_of (posix\<lparr>path_join := win32_join\<rparr>) cat_utils) fn_doThing
     = ''functions'' @ CHR 0x5C # ''utils'' @ CHR 0x5C # ''fn_doThing.sqf''
   \<and> relativeFilename (posix\<lparr>path_join := win32_join\<rparr>)
       (categoryPath_of (posix\<lparr>path_join := win32_join\<rparr>) cat_utils) fn_doThing
     \<noteq> ''functions/utils/fn_doThing.sqf''"
  by code_simp

subsection \<open>The tag of a category\<close>





subsection \<open>Diagnostics for missing files\<close>












subsection \<open>Keys are lower-cased names\<close>

lemma list_all_update:
  "list_all P al \<Longrightarrow> P (k, v) \<Longrightarrow> list_all P (AList.update k v al)"
  by (induction al) auto

lemma table_keys_lower_fold:
  "table_keys_lower (fns st) \<Longrightarrow> table_keys_lower (fns (fold (decl_step env rf) ds st))"
proof (induction ds arbitrary: st)
  case Nil
  then show ?case by simp
next
  case (Cons d ds)
  have "table_keys_lower (fns (decl_step env rf d st))"
    using Cons.prems
    by (simp add: fns_decl_step table_keys_lower_def list_all_update decl_record_def)
  then show ?case using Cons.IH by simp
qed

lemma table_keys_lower_scan: "table_keys_lower (fns (scanCfgFunctions env cfg rf))"
  unfolding scanCfgFunctions_flat
  by (rule table_keys_lower_fold) (simp add: table_keys_lower_def)

lemma table_keys_lower_loadDocs:
  "table_keys_lower table \<Longrightarrow> table_keys_lower (fst (loadDocs env table))"
proof (induction table)
  case Nil
  then show ?case by simp
next
  case (Cons p table)
  obtain f g where p: "p = (f, g)" by (cases p)
  show ?case
  proof (cases "loadDoc env g")
    case (Inl e)
    with Cons.prems p show ?thesis by simp
  next
    case (Inr g')
    with Cons p loadDoc_same[OF Inr] show ?thesis
      by (auto simp: table_keys_lower_def split: prod.splits)
  qed
qed

lemma keys_lower_update:
  "keys_lower m \<Longrightarrow> table_keys_lower table \<Longrightarrow>
   keys_lower (m\<lparr>this_functions := AList.update rf table (this_functions m)\<rparr>)"
  by (simp add: keys_lower_def list_all_update)

lemma keys_lower_fold_send:
  "keys_lower (fold (\<lambda>(uri, ds). sendDiagnostics uri ds) xs m) = keys_lower m"
  by (simp add: keys_lower_def this_functions_fold_send)

lemma keys_lower_processCfgFunctions:
  assumes "keys_lower m"
  shows "keys_lower (fst (processCfgFunctions env cfg rf m))"
proof -
  let ?st = "scanCfgFunctions env cfg rf"
  let ?m1 = "m\<lparr>this_functions := AList.update rf (fns ?st) (this_functions m)\<rparr>"
  let ?m2 = "fold (\<lambda>(uri, ds). sendDiagnostics uri ds) (diagnostics ?st) ?m1"
  have m2: "keys_lower ?m2"
    using assms by (simp add: keys_lower_fold_send keys_lower_update table_keys_lower_scan)
  have tab: "map_of (this_functions ?m2) rf = Some (fns ?st)"
    by (simp add: this_functions_fold_send update_conv')
  have "keys_lower (?m2\<lparr>this_functions :=
          AList.update rf (fst (loadDocs env (fns ?st))) (this_functions ?m2)\<rparr>)"
    using m2 by (intro keys_lower_update table_keys_lower_loadDocs table_keys_lower_scan)
  then show ?thesis
    using tab by (simp add: processCfgFunctions_def Let_def tryToLoadDocs_def case_prod_beta)
qed

lemma keys_lower_process:
  "keys_lower m \<Longrightarrow> keys_lower (fst (process env context rf m))"
  by (simp add: process_def keys_lower_processCfgFunctions split: option.splits)

lemma this_functions_catch_error [simp]:
  "this_functions (catch_error env error m) = this_functions m"
  by (simp add: catch_error_def sendDiagnostics_def split: exn.splits option.splits)

lemma this_functions_sendDiagnostics [simp]:
  "this_functions (sendDiagnostics uri ds m) = this_functions m"
  by (simp add: sendDiagnostics_def)

lemma this_functions_fold_touched [simp]:
  "this_functions (fold (\<lambda>f. sendDiagnostics (u f) []) touched m) = this_functions m"
  by (induction touched arbitrary: m) simp_all

lemma keys_lower_parseFile_callback:
  assumes "keys_lower m"
  shows "keys_lower (parseFile_callback env rf m)"
proof -
  obtain touched result where h: "hpp_parse env rf = (touched, result)"
    by (cases "hpp_parse env rf")
  let ?m0 = "fold (\<lambda>f. sendDiagnostics (uri_file env f) []) touched m"
  have m0: "keys_lower ?m0" using assms by (simp add: keys_lower_def)
  show ?thesis
  proof (cases result)
    case (Inl error)
    then show ?thesis using m0 h by (simp add: parseFile_callback_def keys_lower_def)
  next
    case (Inr tree)
    obtain m1 x where p: "process env tree rf ?m0 = (m1, x)"
      by (cases "process env tree rf ?m0")
    have "keys_lower m1" using keys_lower_process[OF m0, of env tree rf] p by simp
    then show ?thesis
      using h Inr p by (cases x) (simp_all add: parseFile_callback_def keys_lower_def)
  qed
qed

lemma keys_lower_passes:
  "keys_lower m \<Longrightarrow> keys_lower (fold (\<lambda>(env, rf). parseFile_callback env rf) passes m)"
  by (induction passes arbitrary: m) (auto simp: keys_lower_parseFile_callback)

lemma this_functions_parse [simp]: "this_functions (parse env file m) = this_functions m"
  by (simp add: parse_def parseFile_def)

lemma this_functions_fold_parse [simp]:
  "this_functions (fold (parse env) fs m) = this_functions m"
  by (induction fs arbitrary: m) simp_all

lemma this_functions_indexWorkspace [simp]:
  "this_functions (indexWorkspace env root m) = this_functions m"
  by (simp add: indexWorkspace_def Let_def)

lemma keys_lower_fold_callbacks:
  "keys_lower m \<Longrightarrow> keys_lower (fold (parseFile_callback env) fs m)"
  by (induction fs arbitrary: m) (auto simp: keys_lower_parseFile_callback)

text \<open>
  C4. The module starts with the invariant that, for every root file and every entry
  of its table, the key is the lower-cased form of the \<^verbatim>\<open>name\<close> of the record stored under
  it; every indexing pass (the callback of \<^verbatim>\<open>parseFile\<close> for a root, whatever the parser
  returns or throws, whatever the casing of the class names) keeps it, so it holds after
  any sequence of passes, each with its own settings, disk and parse result, and after
  \<^verbatim>\<open>indexWorkspace\<close> and the callbacks it schedules.
\<close>

theorem keys_are_lowercased_names:
  "keys_lower (initial :: 'i ExtModule)
   \<and> (keys_lower (m :: 'i ExtModule) \<longrightarrow> keys_lower (parseFile_callback env rootFilename m))
   \<and> keys_lower (fold (\<lambda>(env, rootFilename). parseFile_callback env rootFilename) passes
                   (initial :: 'i ExtModule))
   \<and> (keys_lower m \<longrightarrow> keys_lower (runPendingReads env (indexWorkspace env root m)))"
proof -
  have i: "keys_lower (initial :: 'i ExtModule)"
    by (simp add: keys_lower_def initial_def)
  have r: "keys_lower (runPendingReads env (indexWorkspace env root m))" if "keys_lower m"
  proof -
    have "keys_lower (indexWorkspace env root m\<lparr>pendingReads := []\<rparr>)"
      using that by (simp add: keys_lower_def)
    then show ?thesis
      unfolding runPendingReads_def by (rule keys_lower_fold_callbacks)
  qed
  from i r show ?thesis
    by (simp add: keys_lower_parseFile_callback keys_lower_passes)
qed

text \<open>One pass over the small mission: the classes \<^verbatim>\<open>doThing\<close> and \<^verbatim>\<open>Net\<close> are written
  with capitals, the keys are not.\<close>

theorem keys_are_lowercased_names_witness:
  "map (\<lambda>(key, fnc). (key, name fnc))
     (concat (map snd (this_functions
        (parseFile_callback mission_env ''/ws/description.ext'' initial))))
     = [(''mytag_fnc_dothing'', ''MYTAG_fnc_doThing''), (''mytag_fnc_other'', ''MYTAG_fnc_other''),
        (''net_fnc_send'', ''NET_fnc_send'')]
   \<and> keys_lower (initial :: string ExtModule)
   \<and> keys_lower (parseFile_callback mission_env ''/ws/description.ext'' initial)"
proof -
  have "map (\<lambda>(key, fnc). (key, name fnc))
     (concat (map snd (this_functions
        (parseFile_callback mission_env ''/ws/description.ext'' initial))))
     = [(''mytag_fnc_dothing'', ''MYTAG_fnc_doThing''), (''mytag_fnc_other'', ''MYTAG_fnc_other''),
        (''net_fnc_send'', ''NET_fnc_send'')]"
    by code_simp
  then show ?thesis
    using keys_are_lowercased_names [of "initial :: string ExtModule" mission_env
        "''/ws/description.ext''" "[]" "''/ws''"]
    by simp
qed

subsection \<open>A root without the registry class\<close>

lemma process_without_registry:
  "map_of (classes context) ''cfgfunctions'' = None \<Longrightarrow> process env context rf m = (m, None)"
  by (simp add: process_def)

lemma parseFile_callback_without_registry:
  assumes "hpp_parse env rf = (touched, Inr context)"
    and "map_of (classes context) ''cfgfunctions'' = None"
  shows "this_functions (parseFile_callback env rf m) = this_functions m"
  using assms by (simp add: parseFile_callback_def process_without_registry)

text \<open>
  C5, at the failing input. The root \<^verbatim>\<open>/ws/description.ext\<close> has been indexed with three
  functions; it is parsed again and its tree has no \<^verbatim>\<open>CfgFunctions\<close> class any more. The
  pass sends only empty lists of diagnostics, but \<^verbatim>\<open>process\<close> returns without touching
  \<^verbatim>\<open>this.functions\<close>: the three entries of the previous pass are still in the table of the
  root, where the claim has an empty table.
\<close>

theorem stale_table_without_registry:
  "map fst (concat (map snd (this_functions indexed_module)))
     = [''mytag_fnc_dothing'', ''mytag_fnc_other'', ''net_fnc_send'']
   \<and> hpp_parse no_registry_env ''/ws/description.ext''
     = ([''/ws/description.ext''], Inr (ClassBody [] []))
   \<and> this_functions (parseFile_callback no_registry_env ''/ws/description.ext'' indexed_module)
     = this_functions indexed_module
   \<and> sent (parseFile_callback no_registry_env ''/ws/description.ext'' indexed_module)
     = sent indexed_module @ [(''file:///ws/description.ext'', []),
                              (''file:///ws/description.ext'', [])]"
proof -
  have 1: "map fst (concat (map snd (this_functions indexed_module)))
     = [''mytag_fnc_dothing'', ''mytag_fnc_other'', ''net_fnc_send'']"
    by code_simp
  have 2: "hpp_parse no_registry_env ''/ws/description.ext''
     = ([''/ws/description.ext''], Inr (ClassBody [] []))"
    by (simp add: no_registry_env_def)
  have 3: "this_functions (parseFile_callback no_registry_env ''/ws/description.ext'' indexed_module)
     = this_functions indexed_module"
    using 2 by (rule parseFile_callback_without_registry) simp
  have 4: "sent (parseFile_callback no_registry_env ''/ws/description.ext'' indexed_module)
     = sent indexed_module @ [(''file:///ws/description.ext'', []),
                              (''file:///ws/description.ext'', [])]"
    using 2 by (simp add: parseFile_callback_def process_without_registry sendDiagnostics_def
          no_registry_env_def mission_env_def)
  from 1 2 3 4 show ?thesis by blast
qed

subsection \<open>When the promise of indexWorkspace is resolved\<close>

text \<open>
  C6, at the failing input. The workspace \<^verbatim>\<open>/ws\<close> lists two root files that exist. When
  \<^verbatim>\<open>indexWorkspace\<close> calls \<^verbatim>\<open>resolve()\<close>, both files have only been handed to
  \<^verbatim>\<open>fs.readFile\<close>: their callbacks are pending, nothing has been parsed, and the function
  table is empty. The callbacks run afterwards; the syntax error of the first file becomes a
  diagnostic of that file and does not keep the second file from being indexed.
\<close>

theorem indexWorkspace_resolves_before_parsing:
  "pendingReads (indexWorkspace two_roots_env ''/ws'' initial)
     = [''/ws/a/description.ext'', ''/ws/b/description.ext'']
   \<and> this_functions (indexWorkspace two_roots_env ''/ws'' initial) = []
   \<and> sent (indexWorkspace two_roots_env ''/ws'' initial) = []
   \<and> map fst (this_functions (runPendingReads two_roots_env
                                 (indexWorkspace two_roots_env ''/ws'' initial)))
     = [''/ws/b/description.ext'']
   \<and> hd (sent (runPendingReads two_roots_env (indexWorkspace two_roots_env ''/ws'' initial)))
     = (''file:///ws/a/description.ext'', [])
   \<and> sent (runPendingReads two_roots_env (indexWorkspace two_roots_env ''/ws'' initial)) ! 1
     = (''file:///ws/a/description.ext'',
        [\<lparr> severity = Error, diag_range = ((0, 18), (0, 19)), message = ''Expected {'',
           source = ''sqflint'' \<rparr>])"
  by code_simp

subsection \<open>Completion\<close>

lemma char_toLowerCase_dot: "char_toLowerCase c = CHR ''.'' \<Longrightarrow> c = CHR ''.''"
  by (auto simp: char_toLowerCase_def upper_chars_def lower_chars_def split: if_splits)

lemma char_toLowerCase_not_dot: "char_toLowerCase c \<noteq> CHR ''.'' \<Longrightarrow> c \<noteq> CHR ''.''"
  by (auto simp: char_toLowerCase_def upper_chars_def lower_chars_def)

lemma map_eq_4:
  assumes "map f vs = [a, b, c, d]"
  obtains p q r s where "vs = [p, q, r, s]" "f p = a" "f q = b" "f r = c" "f s = d"
  using assms by (auto simp: map_eq_Cons_conv)

lemma map_eq_split:
  assumes "map f b = xs @ ys"
  obtains us vs where "b = us @ vs" "map f us = xs" "map f vs = ys"
  using assms by (auto simp: map_eq_append_conv)

text \<open>A document whose base name is \<^verbatim>\<open>description.ext\<close>, in any casing, has the extension
  \<^verbatim>\<open>.ext\<close>, so it is not an \<^verbatim>\<open>.sqf\<close> document.\<close>

lemma posix_extname_description_ext:
  assumes h: "toLowerCase (posix_basename u) = ''description.ext''"
  shows "toLowerCase (posix_extname u) = ''.ext''"
proof -
  define b where "b = posix_basename u"
  from h have "map char_toLowerCase b = ''description'' @ ''.ext''"
    by (simp add: toLowerCase_def b_def)
  then obtain us vs where b: "b = us @ vs"
    and us: "map char_toLowerCase us = ''description''"
    and vs: "map char_toLowerCase vs = ''.ext''"
    by (rule map_eq_split)
  from vs obtain d x y z where vs': "vs = [d, x, y, z]"
    and l: "char_toLowerCase d = CHR ''.''" "char_toLowerCase x = CHR ''e''"
      "char_toLowerCase y = CHR ''x''" "char_toLowerCase z = CHR ''t''"
    by (rule map_eq_4)
  have d: "d = CHR ''.''" using l(1) by (rule char_toLowerCase_dot)
  have nd: "x \<noteq> CHR ''.''" "y \<noteq> CHR ''.''" "z \<noteq> CHR ''.''"
    using l char_toLowerCase_not_dot[of x] char_toLowerCase_not_dot[of y]
      char_toLowerCase_not_dot[of z] by simp_all
  have ne: "us \<noteq> []" using us by auto
  have e: "rev (takeWhile (\<lambda>c. c \<noteq> CHR ''.'') (rev b)) = [x, y, z]"
    using nd by (simp add: b vs' d)
  have pre: "take (length b - length [x, y, z] - 1) b = us"
    by (simp add: b vs')
  have dots: "CHR ''.'' \<in> set b" "b \<noteq> ''..''"
    using ne by (auto simp: b vs' d)
  have "posix_extname u = CHR ''.'' # [x, y, z]"
    using e pre dots ne unfolding posix_extname_def b_def[symmetric] Let_def by simp
  then show ?thesis using l by (simp add: toLowerCase_def d[symmetric])
qed

lemma posix_sqf_not_description:
  "toLowerCase (posix_extname u) = ''.sqf'' \<Longrightarrow> toLowerCase (posix_basename u) \<noteq> ''description.ext''"
  using posix_extname_description_ext[of u] by auto

lemma starts_with_prefix: "starts_with ident word \<longleftrightarrow> prefix word ident"
proof
  assume "starts_with ident word"
  then have "ident = word @ drop (length word) ident"
    by (metis append_take_drop_id starts_with_def)
  then show "prefix word ident" by (metis prefixI)
next
  assume "prefix word ident"
  then show "starts_with ident word" by (auto simp: prefix_def starts_with_def)
qed

lemma concat_map_if:
  "concat (map (\<lambda>(k, v). if P k then [f k v] else []) xs) =
     map (\<lambda>(k, v). f k v) (filter (\<lambda>(k, v). P k) xs)"
  by (induction xs) auto

lemma map_filter_concat:
  "concat (map (\<lambda>(file, table). map f (filter P table)) roots) =
     map f (filter P (concat (map snd roots)))"
  by (induction roots) auto

lemma function_items:
  "concat (map (\<lambda>(file, table).
            concat (map (\<lambda>(ident, fnc).
                           if starts_with ident word then [functionItem ident fnc] else [])
                      table))
          roots) =
     map (\<lambda>(ident, fnc). functionItem ident fnc)
       (filter (\<lambda>(ident, fnc). prefix word ident) (concat (map snd roots)))"
  by (simp add: concat_map_if map_filter_concat starts_with_prefix)

lemma map_filter_keys:
  "\<forall>p \<in> set xs. fst p = k (snd p) \<Longrightarrow>
   map (\<lambda>(i, f). g i f) (filter (\<lambda>(i, f). P i) xs) =
   map (\<lambda>(i, f). g (k f) f) (filter (\<lambda>(i, f). P (k f)) xs)"
  by (induction xs) auto

lemma keys_lower_entries:
  "keys_lower m \<Longrightarrow>
   \<forall>p \<in> set (concat (map snd (this_functions m))). fst p = toLowerCase (name (snd p))"
  by (fastforce simp: keys_lower_def table_keys_lower_def list_all_iff)

text \<open>
  C8, as amended. For a completion request on a document with the extension \<^verbatim>\<open>.sqf\<close> (in
  any casing) and any prefix, the items returned are exactly, root by root and entry by
  entry in iteration order, the entries whose key starts with the prefix as it was passed;
  the item shows the stored name. The comparison is case-sensitive and is made with the
  key, which is the lower-cased name, not with the stored name: a prefix with a capital
  letter matches nothing. (On a platform other than POSIX the statement is made for a
  document whose base name is not \<^verbatim>\<open>description.ext\<close>.)
\<close>

theorem completion_matches_keys:
  "(toLowerCase (path_extname (os env) uri) = ''.sqf''
      \<and> toLowerCase (path_basename (os env) uri) \<noteq> ''description.ext''
    \<longrightarrow> onCompletion env m uri word =
          map (\<lambda>(ident, fnc). functionItem ident fnc)
            (filter (\<lambda>(ident, fnc). prefix word ident) (concat (map snd (this_functions m)))))
   \<and> (os env = posix \<and> toLowerCase (posix_extname uri) = ''.sqf''
    \<longrightarrow> onCompletion env m uri word =
          map (\<lambda>(ident, fnc). functionItem ident fnc)
            (filter (\<lambda>(ident, fnc). prefix word ident) (concat (map snd (this_functions m)))))
   \<and> (keys_lower m
    \<longrightarrow> map (\<lambda>(ident, fnc). functionItem ident fnc)
            (filter (\<lambda>(ident, fnc). prefix word ident) (concat (map snd (this_functions m))))
        = map (\<lambda>(ident, fnc). functionItem (toLowerCase (name fnc)) fnc)
            (filter (\<lambda>(ident, fnc). prefix word (toLowerCase (name fnc)))
               (concat (map snd (this_functions m)))))"
proof -
  let ?F = "map (\<lambda>(ident, fnc). functionItem ident fnc)
            (filter (\<lambda>(ident, fnc). prefix word ident) (concat (map snd (this_functions m))))"
  have a: "onCompletion env m uri word = ?F"
    if "toLowerCase (path_extname (os env) uri) = ''.sqf''"
      "toLowerCase (path_basename (os env) uri) \<noteq> ''description.ext''"
    using that by (simp add: onCompletion_def function_items)
  have b: "onCompletion env m uri word = ?F"
    if "os env = posix" "toLowerCase (posix_extname uri) = ''.sqf''"
  proof -
    have "toLowerCase (path_extname (os env) uri) = ''.sqf''"
      "toLowerCase (path_basename (os env) uri) \<noteq> ''description.ext''"
      using that posix_sqf_not_description[of uri] by (simp_all add: posix_def)
    then show ?thesis by (rule a)
  qed
  have c: "?F = map (\<lambda>(ident, fnc). functionItem (toLowerCase (name fnc)) fnc)
            (filter (\<lambda>(ident, fnc). prefix word (toLowerCase (name fnc)))
               (concat (map snd (this_functions m))))"
    if "keys_lower m"
    using keys_lower_entries[OF that] by (rule map_filter_keys)
  from a b c show ?thesis by blast
qed

text \<open>In the indexed small mission the prefix \<^verbatim>\<open>mytag_fnc_d\<close> finds the function that is
  stored as \<^verbatim>\<open>MYTAG_fnc_doThing\<close>.\<close>

theorem completion_matches_keys_witness:
  "onCompletion mission_env indexed_module ''file:///ws/init.sqf'' ''mytag_fnc_d''
     = [\<lparr> label = ''MYTAG_fnc_doThing'', data = ''mytag_fnc_dothing'',
          filterText = ''MYTAG_fnc_doThing'', insertText = ''MYTAG_fnc_doThing'',
          kind = KindFunction, item_documentation = None \<rparr>]"
proof -
  have os: "os mission_env = posix"
    by (simp add: mission_env_def)
  have ext: "toLowerCase (posix_extname ''file:///ws/init.sqf'') = ''.sqf''"
    by code_simp
  have items: "map (\<lambda>(ident, fnc). functionItem ident fnc)
            (filter (\<lambda>(ident, fnc). prefix ''mytag_fnc_d'' ident)
               (concat (map snd (this_functions indexed_module))))
     = [\<lparr> label = ''MYTAG_fnc_doThing'', data = ''mytag_fnc_dothing'',
          filterText = ''MYTAG_fnc_doThing'', insertText = ''MYTAG_fnc_doThing'',
          kind = KindFunction, item_documentation = None \<rparr>]"
    by code_simp
  from completion_matches_keys [of mission_env "''file:///ws/init.sqf''" indexed_module
      "''mytag_fnc_d''"] os ext items
  show ?thesis by simp
qed

text \<open>The claim as it is written fails: the stored name \<^verbatim>\<open>MYTAG_fnc_doThing\<close> starts with
  \<^verbatim>\<open>MYTAG\<close>, and the completion for the prefix \<^verbatim>\<open>MYTAG\<close> returns nothing.\<close>

theorem completion_counterexample:
  "toLowerCase (path_extname (os mission_env) ''file:///ws/init.sqf'') = ''.sqf''
   \<and> map (name \<circ> snd) (concat (map snd (this_functions indexed_module)))
     = [''MYTAG_fnc_doThing'', ''MYTAG_fnc_other'', ''NET_fnc_send'']
   \<and> prefix ''MYTAG'' ''MYTAG_fnc_doThing''
   \<and> onCompletion mission_env indexed_module ''file:///ws/init.sqf'' ''MYTAG'' = []"
  by code_simp

subsection \<open>Docstring extraction\<close>

text \<open>An exception in the body of the loop of \<^verbatim>\<open>tryToLoadDocs\<close> ends the loop: the function at
  which it is thrown and all the functions after it are left as they were. The method has
  no \<^verbatim>\<open>try\<close> of its own, so the exception goes on to the \<^verbatim>\<open>catch\<close> block of \<^verbatim>\<open>parseFile\<close>.\<close>

lemma loadDocs_stops_at_exception:
  "loadDoc env fnc = Inl e \<Longrightarrow> loadDocs env ((f, fnc) # rest) = ((f, fnc) # rest, Some e)"
  by simp

text \<open>A file whose only block comment is cut by the line separator U+2028 gets no \<^verbatim>\<open>info\<close>:
  the group of the regular expression cannot go past that code unit.\<close>

lemma commentRegex_exec_line_separator:
  "commentRegex_exec (utf16 ''/* a'' @ [0x2028] @ utf16 ''b */'') = None"
  by code_simp

text \<open>
  C9, at the failing input. The file of \<^verbatim>\<open>MYTAG_fnc_doThing\<close> exists and starts with code:
  it has no leading block comment, and the claim leaves \<^verbatim>\<open>info\<close> unset. The regular
  expression of \<^verbatim>\<open>tryToLoadDocs\<close> has no anchor, so it matches at the first \<^verbatim>\<open>/*\<close> after the
  code, and its greedy group runs to the last \<^verbatim>\<open>*/\<close> of the file: the parser is called
  with the text between the first comment's opening and the last comment's closing
  marker, code included, and its result is stored as \<^verbatim>\<open>info\<close>, by the loop body and by the
  whole indexing pass. In the same way, for a file that does start with a block comment
  and has a second one later, the parser is not given the interior of the leading comment
  but everything up to the end of the last one.
\<close>

theorem docs_attached_without_leading_comment:
  "disk mission_env ''/ws/functions/utils/fn_doThing.sqf''
     = Some (File (utf16 ''private _x = 1; /* Does a thing */ hint str _x; /* end */''))
   \<and> spec_leading_block_comment
       (utf16 ''private _x = 1; /* Does a thing */ hint str _x; /* end */'') = None
   \<and> commentRegex_exec (utf16 ''private _x = 1; /* Does a thing */ hint str _x; /* end */'')
     = Some (utf16 '' Does a thing */ hint str _x; /* end '')
   \<and> loadDoc mission_env
       \<lparr> name = ''MYTAG_fnc_doThing'', filename = ''/ws/functions/utils/fn_doThing.sqf'',
         info = None \<rparr>
     = Inr \<lparr> name = ''MYTAG_fnc_doThing'', filename = ''/ws/functions/utils/fn_doThing.sqf'',
             info = Some '' Does a thing */ hint str _x; /* end '' \<rparr>
   \<and> map snd (concat (map snd (this_functions indexed_module)))
     = [\<lparr> name = ''MYTAG_fnc_doThing'', filename = ''/ws/functions/utils/fn_doThing.sqf'',
           info = Some '' Does a thing */ hint str _x; /* end '' \<rparr>,
        \<lparr> name = ''MYTAG_fnc_other'', filename = ''/ws/functions/utils/fn_other.sqf'',
           info = None \<rparr>,
        \<lparr> name = ''NET_fnc_send'', filename = ''/ws/functions/Net/fn_send.sqf'', info = None \<rparr>]
   \<and> spec_leading_block_comment (utf16 ''/* a */ x = 1; /* b */'') = Some (utf16 '' a '')
   \<and> commentRegex_exec (utf16 ''/* a */ x = 1; /* b */'') = Some (utf16 '' a */ x = 1; /* b '')"
  by code_simp

subsection \<open>Definition and hover\<close>











lemma documentation_keys_lower_load:
  "documentation_keys_lower m \<Longrightarrow> documentation_keys_lower (loadDocumentation items m)"
  unfolding loadDocumentation_def
  by (induction items arbitrary: m) (simp_all add: documentation_keys_lower_def list_all_update)






end
